theory Spec2Isabelle
  imports Main "HOL-Library.Word"
begin

unbundle bit_operations_syntax

section \<open>Data model\<close>

text \<open>
  The reconciliation handlers of \<^verbatim>\<open>orchestrator/consensus/handler.go\<close>.
  Slots, step ids, epochs and unix times are Go \<^verbatim>\<open>uint64\<close>; a \<^verbatim>\<open>common.Hash\<close> and a
  \<^verbatim>\<open>[32]byte\<close> root are 256-bit values; a protobuf \<^verbatim>\<open>[]byte\<close> is a list of bytes.
\<close>

type_synonym u64 = "64 word"
type_synonym hash = "256 word"
type_synonym bytes = "8 word list"

text \<open>
  Go errors: \<^verbatim>\<open>errors.New\<close>, \<^verbatim>\<open>errors.Wrap\<close>, and the run-time panic of an integer
  division by zero (the only panic the handlers can raise on inputs of these types).
\<close>

datatype error = ErrNew string | ErrWrap error string | PanicDivideByZero

datatype Status = Pending | Verified | Invalid | Skipped

record SlotInfoWithStatus =
  PandoraHeaderHash :: hash
  VanguardBlockHash :: hash
  Status :: Status

text \<open>
  The execution header (\<^verbatim>\<open>eth1Types.Header\<close>, an external type): the handlers read its
  number, its parent hash and its hash; \<open>Hash\<close> stands for the method \<^verbatim>\<open>Header.Hash()\<close>.
\<close>

record Header =
  Number :: nat
  ParentHash :: hash
  Hash :: hash

record PandoraHeaderInfo =
  HSlot :: u64
  Header :: Header

text \<open>
  The shard announced inside a vanguard block; the handlers read its \<^verbatim>\<open>Hash\<close> bytes.
  The inbound events carry their header and their shard by value (spec, 6), so a nil
  header or shard pointer inside a non-nil event is not an input of these types.
\<close>

record PandoraShard =
  ShardHash :: bytes

record VanguardShardInfo =
  Slot :: u64
  BlockRoot :: hash
  ParentRoot :: hash
  FinalizedSlot :: u64
  FinalizedEpoch :: u64
  ShardInfo :: PandoraShard

text \<open>
  Modelled from the spec: the type \<^verbatim>\<open>types.MultiShardInfo\<close> and its methods are not
  among the sources. The spec's data model gives the verified record as
  \<^verbatim>\<open>{ slot, slot_block_root, parent_root, shards: [ExecutionShard...] }\<close>, an execution
  shard carrying \<^verbatim>\<open>hash\<close> and \<^verbatim>\<open>parent_hash\<close>.
\<close>

record ExecutionShard =
  shard_hash :: hash
  shard_parent_hash :: hash

record MultiShardInfo =
  slot :: u64
  slot_block_root :: hash
  parent_root :: hash
  shards :: "ExecutionShard list"

text \<open>
  Modelled from the spec: the nil tests and getters of \<^verbatim>\<open>*types.MultiShardInfo\<close>. A
  pointer is an option; a record counts as nil when the pointer is nil or the record has
  no execution shard, so that \<^verbatim>\<open>shards[0]\<close> exists wherever \<open>NotNil\<close> holds. The
  execution hash of a record is the hash of its top shard (the zero hash when there is
  none), its consensus root is \<^verbatim>\<open>slot_block_root\<close>.
\<close>

fun IsNil :: "MultiShardInfo option \<Rightarrow> bool" where
  "IsNil None = True"
| "IsNil (Some m) = (shards m = [])"

definition NotNil :: "MultiShardInfo option \<Rightarrow> bool" where
  "NotNil m = (\<not> IsNil m)"

definition GetPanShardRoot :: "MultiShardInfo \<Rightarrow> hash" where
  "GetPanShardRoot m = (case shards m of [] \<Rightarrow> 0 | sh # _ \<Rightarrow> shard_hash sh)"

definition GetVanSlotRoot :: "MultiShardInfo \<Rightarrow> hash" where
  "GetVanSlotRoot m = slot_block_root m"

record ReorgStatus =
  RSlot :: u64
  RBlockRoot :: hash
  ParentStepId :: u64
  ParentShardInfo :: "MultiShardInfo option"
  PandoraHash :: hash
  HasResolved :: bool

record PanCacheInsertParams =
  CurrentVerifiedHeader :: Header
  PanLastVerifiedShardInfo :: "MultiShardInfo option"

record VanCacheInsertParams =
  DisableDelete :: bool
  CurrentShardInfo :: VanguardShardInfo
  VanLastVerifiedShardInfo :: "MultiShardInfo option"

text \<open>
  Modelled from the spec: the cache entries returned by \<^verbatim>\<open>Get\<close>
  (\<^verbatim>\<open>PanCacheEntry\<close>, \<^verbatim>\<open>VanCacheEntry\<close> of the data model). The handlers test the entry
  and the pointer inside it for nil, so both are options.
\<close>

record PanCacheEntry =
  GetPanHeader :: "Header option"
  pan_last_verified_shard_info :: "MultiShardInfo option"
  pan_in_progress :: bool

record VanCacheEntry =
  GetVanShard :: "VanguardShardInfo option"
  van_last_verified_shard_info :: "MultiShardInfo option"
  van_disable_delete :: bool
  van_in_progress :: bool

text \<open>
  \<^verbatim>\<open>common.BytesToHash\<close> of go-ethereum: the bytes are read big-endian into 32 bytes,
  cropped from the left when longer and padded with zeros on the left when shorter.
\<close>

definition BytesToHash :: "bytes \<Rightarrow> hash" where
  "BytesToHash b = foldl (\<lambda>acc x. push_bit 8 acc OR ucast x) 0 b"

text \<open>Modelled from the spec: the two package constants, both 1 in this revision.\<close>

definition TotalExecutionShardCount :: u64 where
  "TotalExecutionShardCount = 1"

definition ShardsPerVanBlock :: u64 where
  "ShardsPerVanBlock = 1"

section \<open>The service and its collaborators\<close>

text \<open>
  The state of \<^verbatim>\<open>Service\<close> that the handlers touch. The store and the two caches are
  Go interfaces whose implementations are not among the sources: their states are the
  type parameters \<open>'d\<close>, \<open>'pc\<close> and \<open>'vc\<close>. The confirmation feed is the list of the
  events sent so far, oldest first.
\<close>

record ('d, 'pc, 'vc) Service =
  db :: 'd
  panHeaderCache :: 'pc
  vanShardCache :: 'vc
  curReorgStatus :: "ReorgStatus option"
  verifiedSlotInfoFeed :: "SlotInfoWithStatus list"
  genesisTime :: u64
  secondsPerSlot :: u64

text \<open>
  The methods the handlers call on code that is not among the sources, taken as
  parameters: the store interface (\<open>db_\<close>), the pandora and vanguard cache interfaces
  (\<open>pan_\<close>, \<open>van_\<close>), and the functions \<^verbatim>\<open>compareShardingInfo\<close>, \<^verbatim>\<open>checkReorg\<close>,
  \<^verbatim>\<open>processReorg\<close> and \<^verbatim>\<open>utils.PrepareMultiShardData\<close>. A method that returns an
  error and may write returns the error (if any) together with the state it leaves. The
  reorg controller reads and rewinds the shard store (spec, 4.4), so \<open>checkReorg\<close> and
  \<open>processReorg\<close> act on the store's state.
\<close>

record ('d, 'pc, 'vc) Collaborators =
  db_LatestStepID :: "'d \<Rightarrow> u64"
  db_VerifiedShardInfo :: "'d \<Rightarrow> u64 \<Rightarrow> error + MultiShardInfo option"
  db_GetStepIdBySlot :: "'d \<Rightarrow> u64 \<Rightarrow> error + u64"
  db_SaveVerifiedShardInfo :: "'d \<Rightarrow> u64 \<Rightarrow> MultiShardInfo \<Rightarrow> error option \<times> 'd"
  db_SaveLatestStepID :: "'d \<Rightarrow> u64 \<Rightarrow> error option \<times> 'd"
  db_SaveSlotStepIndex :: "'d \<Rightarrow> u64 \<Rightarrow> u64 \<Rightarrow> error option \<times> 'd"
  db_FinalizedSlot :: "'d \<Rightarrow> u64"
  db_FinalizedEpoch :: "'d \<Rightarrow> u64"
  db_SaveFinalizedSlot :: "'d \<Rightarrow> u64 \<Rightarrow> error option \<times> 'd"
  db_SaveFinalizedEpoch :: "'d \<Rightarrow> u64 \<Rightarrow> error option \<times> 'd"
  pan_Put :: "'pc \<Rightarrow> u64 \<Rightarrow> PanCacheInsertParams \<Rightarrow> error option \<times> 'pc"
  pan_MarkInProgress :: "'pc \<Rightarrow> u64 \<Rightarrow> error option \<times> 'pc"
  pan_MarkNotInProgress :: "'pc \<Rightarrow> u64 \<Rightarrow> 'pc"
  pan_Get :: "'pc \<Rightarrow> u64 \<Rightarrow> PanCacheEntry option"
  pan_ForceDelSlot :: "'pc \<Rightarrow> u64 \<Rightarrow> 'pc"
  van_Put :: "'vc \<Rightarrow> u64 \<Rightarrow> VanCacheInsertParams \<Rightarrow> error option \<times> 'vc"
  van_MarkInProgress :: "'vc \<Rightarrow> u64 \<Rightarrow> error option \<times> 'vc"
  van_MarkNotInProgress :: "'vc \<Rightarrow> u64 \<Rightarrow> 'vc"
  van_Get :: "'vc \<Rightarrow> u64 \<Rightarrow> VanCacheEntry option"
  van_ForceDelSlot :: "'vc \<Rightarrow> u64 \<Rightarrow> 'vc"
  compareShardingInfo :: "Header \<Rightarrow> PandoraShard \<Rightarrow> bool"
  checkReorg :: "'d \<Rightarrow> VanguardShardInfo \<Rightarrow> MultiShardInfo option \<Rightarrow> u64
                   \<Rightarrow> error + (MultiShardInfo option \<times> u64)"
  processReorg :: "'d \<Rightarrow> u64 \<Rightarrow> MultiShardInfo option \<Rightarrow> error option \<times> 'd"
  PrepareMultiShardData :: "VanguardShardInfo \<Rightarrow> Header \<Rightarrow> u64 \<Rightarrow> u64 \<Rightarrow> MultiShardInfo"

text \<open>
  Modelled from the spec: \<^verbatim>\<open>verifyShardInfo\<close> is not among the sources. The spec (4.5,
  \<^verbatim>\<open>insert_into_chain\<close>, step 2) gives the parent-link compare: either
  \<^verbatim>\<open>latest.step_id == 0\<close>, or \<^verbatim>\<open>latest.record.shards[0].hash == h.parent_hash\<close> and
  \<^verbatim>\<open>latest.record.slot_block_root == v.parent_root\<close>. A missing record or a record
  without a shard has no top shard to agree with, so the compare fails there.
\<close>

definition verifyShardInfo ::
  "MultiShardInfo option \<Rightarrow> Header \<Rightarrow> VanguardShardInfo \<Rightarrow> u64 \<Rightarrow> bool" where
  "verifyShardInfo latestShardInfo header vanShardInfo latestStepId =
     (latestStepId = 0 \<or>
      (case latestShardInfo of
         None \<Rightarrow> False
       | Some r \<Rightarrow>
           (case shards r of
              [] \<Rightarrow> False
            | sh # _ \<Rightarrow> shard_hash sh = ParentHash header
                       \<and> slot_block_root r = ParentRoot vanShardInfo)))"

section \<open>The handlers\<close>

text \<open>\<^verbatim>\<open>publishBlockConfirmation\<close> (handler.go, 277-283): one send on the feed.\<close>

definition publishBlockConfirmation ::
  "('d, 'pc, 'vc) Service \<Rightarrow> hash \<Rightarrow> hash \<Rightarrow> Status \<Rightarrow> ('d, 'pc, 'vc) Service" where
  "publishBlockConfirmation s blockHash slotHash status =
     s\<lparr>verifiedSlotInfoFeed := verifiedSlotInfoFeed s @
          [\<lparr>PandoraHeaderHash = blockHash, VanguardBlockHash = slotHash, Status = status\<rparr>]\<rparr>"

text \<open>\<^verbatim>\<open>getShardingInfo\<close> (handler.go, 221-234): both read errors become nil.\<close>

definition getShardingInfo ::
  "('d, 'pc, 'vc) Collaborators \<Rightarrow> ('d, 'pc, 'vc) Service \<Rightarrow> u64 \<Rightarrow> MultiShardInfo option" where
  "getShardingInfo D s slt =
     (case db_GetStepIdBySlot D (db s) slt of
        Inl err \<Rightarrow> None
      | Inr stepId \<Rightarrow>
          (case db_VerifiedShardInfo D (db s) stepId of
             Inl err \<Rightarrow> None
           | Inr shardInfo \<Rightarrow> shardInfo))"

text \<open>
  \<^verbatim>\<open>writeShardInfoInDB\<close> (handler.go, 239-257): the three saves in order, stopping at the
  first error. The step id is \<^verbatim>\<open>latestStepId + 1\<close> in \<^verbatim>\<open>uint64\<close>.
\<close>

definition writeShardInfoInDB ::
  "('d, 'pc, 'vc) Collaborators \<Rightarrow> ('d, 'pc, 'vc) Service \<Rightarrow> MultiShardInfo
     \<Rightarrow> error option \<times> ('d, 'pc, 'vc) Service" where
  "writeShardInfoInDB D s shardInfo =
     (let latestStepId = db_LatestStepID D (db s);
          nextStepId = latestStepId + 1
      in case db_SaveVerifiedShardInfo D (db s) nextStepId shardInfo of
           (Some err, d1) \<Rightarrow> (Some err, s\<lparr>db := d1\<rparr>)
         | (None, d1) \<Rightarrow>
             (case db_SaveLatestStepID D d1 nextStepId of
                (Some err, d2) \<Rightarrow> (Some err, s\<lparr>db := d2\<rparr>)
              | (None, d2) \<Rightarrow>
                  (case db_SaveSlotStepIndex D d2 (slot shardInfo) nextStepId of
                     (Some err, d3) \<Rightarrow> (Some err, s\<lparr>db := d3\<rparr>)
                   | (None, d3) \<Rightarrow> (None, s\<lparr>db := d3\<rparr>))))"

text \<open>
  \<^verbatim>\<open>writeFinalizeInfo\<close> (handler.go, 260-274): each scalar is saved only when the input is
  strictly greater than the stored one; a save error is logged and dropped.
\<close>

definition writeFinalizeInfo ::
  "('d, 'pc, 'vc) Collaborators \<Rightarrow> ('d, 'pc, 'vc) Service \<Rightarrow> u64 \<Rightarrow> u64
     \<Rightarrow> ('d, 'pc, 'vc) Service" where
  "writeFinalizeInfo D s finalizeSlot finalizeEpoch =
     (let curFinalizeSlot = db_FinalizedSlot D (db s);
          s1 = (if finalizeSlot > curFinalizeSlot
                then s\<lparr>db := snd (db_SaveFinalizedSlot D (db s) finalizeSlot)\<rparr>
                else s);
          curFinalizeEpoch = db_FinalizedEpoch D (db s1)
      in if finalizeEpoch > curFinalizeEpoch
         then s1\<lparr>db := snd (db_SaveFinalizedEpoch D (db s1) finalizeEpoch)\<rparr>
         else s1)"

text \<open>
  \<^verbatim>\<open>insertIntoChain\<close>, lines 188-199: when the reorg status names this slot and block root
  and is not resolved, the store is rewound; a failure is returned to the caller of this
  block (which logs it and returns nil), a success marks the status resolved.
\<close>

definition resolveReorg ::
  "('d, 'pc, 'vc) Collaborators \<Rightarrow> ('d, 'pc, 'vc) Service \<Rightarrow> VanguardShardInfo
     \<Rightarrow> error option \<times> ('d, 'pc, 'vc) Service" where
  "resolveReorg D s vanShardInfo =
     (case curReorgStatus s of
        None \<Rightarrow> (None, s)
      | Some rs \<Rightarrow>
          if RSlot rs = Slot vanShardInfo \<and> RBlockRoot rs = BlockRoot vanShardInfo
             \<and> \<not> HasResolved rs
          then (case processReorg D (db s) (ParentStepId rs) (ParentShardInfo rs) of
                  (Some err, d1) \<Rightarrow> (Some err, s\<lparr>db := d1\<rparr>)
                | (None, d1) \<Rightarrow>
                    (None, s\<lparr>db := d1, curReorgStatus := Some (rs\<lparr>HasResolved := True\<rparr>)\<rparr>))
          else (None, s))"

text \<open>
  \<^verbatim>\<open>insertIntoChain\<close>, lines 201-218: build the record, append it, store the finality
  scalars, evict the slot from both caches and publish \<open>Verified\<close>; a failed append
  returns the wrapped error before anything else happens.
\<close>

definition commitVerified ::
  "('d, 'pc, 'vc) Collaborators \<Rightarrow> ('d, 'pc, 'vc) Service \<Rightarrow> VanguardShardInfo \<Rightarrow> Header
     \<Rightarrow> error option \<times> ('d, 'pc, 'vc) Service" where
  "commitVerified D s vanShardInfo header =
     (let newShardInfo =
            PrepareMultiShardData D vanShardInfo header TotalExecutionShardCount ShardsPerVanBlock
      in case writeShardInfoInDB D s newShardInfo of
           (Some err, s1) \<Rightarrow> (Some (ErrWrap err ''failed to write shard info in db''), s1)
         | (None, s1) \<Rightarrow>
             (let s2 = writeFinalizeInfo D s1 (FinalizedSlot vanShardInfo)
                         (FinalizedEpoch vanShardInfo);
                  s3 = s2\<lparr>panHeaderCache :=
                            pan_ForceDelSlot D (panHeaderCache s2) (Slot vanShardInfo)\<rparr>;
                  s4 = s3\<lparr>vanShardCache :=
                            van_ForceDelSlot D (vanShardCache s3) (Slot vanShardInfo)\<rparr>
              in (None, publishBlockConfirmation s4 (Hash header) (BlockRoot vanShardInfo)
                          Verified)))"

text \<open>\<^verbatim>\<open>insertIntoChain\<close> (handler.go, 178-219).\<close>

definition insertIntoChain ::
  "('d, 'pc, 'vc) Collaborators \<Rightarrow> ('d, 'pc, 'vc) Service \<Rightarrow> VanguardShardInfo \<Rightarrow> Header
     \<Rightarrow> MultiShardInfo option \<Rightarrow> u64 \<Rightarrow> error option \<times> ('d, 'pc, 'vc) Service" where
  "insertIntoChain D s vanShardInfo header latestShardInfo latestStepId =
     (if compareShardingInfo D header (ShardInfo vanShardInfo)
         \<and> verifyShardInfo latestShardInfo header vanShardInfo latestStepId
      then (case resolveReorg D s vanShardInfo of
              (Some err, s1) \<Rightarrow> (None, s1)
            | (None, s1) \<Rightarrow> commitVerified D s1 vanShardInfo header)
      else (None, publishBlockConfirmation s (Hash header) (BlockRoot vanShardInfo) Invalid))"

text \<open>
  The head of the verified chain as both entry points load it (handler.go, 35-43 and
  99-107): a read error is wrapped, a missing record above step 0 is an error.
\<close>

definition loadLatest ::
  "('d, 'pc, 'vc) Collaborators \<Rightarrow> ('d, 'pc, 'vc) Service
     \<Rightarrow> error + (MultiShardInfo option \<times> u64)" where
  "loadLatest D s =
     (let latestStepId = db_LatestStepID D (db s)
      in case db_VerifiedShardInfo D (db s) latestStepId of
           Inl err \<Rightarrow>
             Inl (ErrWrap err ''DB is corrupted! Failed to retrieve latest shard info'')
         | Inr latestShardInfo \<Rightarrow>
             if latestStepId > 0 \<and> (latestShardInfo = None \<or> IsNil latestShardInfo)
             then Inl (ErrNew ''nil latest shard info'')
             else Inr (latestShardInfo, latestStepId))"

text \<open>The short-circuit test of \<^verbatim>\<open>processPandoraHeader\<close> (handler.go, 27-28).\<close>

definition panAlreadyVerified ::
  "('d, 'pc, 'vc) Collaborators \<Rightarrow> ('d, 'pc, 'vc) Service \<Rightarrow> PandoraHeaderInfo
     \<Rightarrow> MultiShardInfo option" where
  "panAlreadyVerified D s headerInfo =
     (case getShardingInfo D s (HSlot headerInfo) of
        None \<Rightarrow> None
      | Some shardInfo \<Rightarrow>
          if NotNil (Some shardInfo) \<and> GetPanShardRoot shardInfo = Hash (Header headerInfo)
          then Some shardInfo else None)"

text \<open>
  \<^verbatim>\<open>processPandoraHeader\<close>, lines 45-51: the head is replaced by the reorg ancestor when
  the reorg status announces this header's hash.
\<close>

definition reorgLatest ::
  "('d, 'pc, 'vc) Service \<Rightarrow> Header \<Rightarrow> MultiShardInfo option \<times> u64
     \<Rightarrow> MultiShardInfo option \<times> u64" where
  "reorgLatest s header latest =
     (case curReorgStatus s of
        None \<Rightarrow> latest
      | Some rs \<Rightarrow>
          if PandoraHash rs = Hash header then (ParentShardInfo rs, ParentStepId rs)
          else latest)"

text \<open>
  \<^verbatim>\<open>processPandoraHeader\<close>, lines 53-80: put the header in the cache (a rejected put
  publishes \<open>Invalid\<close> with the zero hash and returns nil), mark the slot in progress,
  and pair it with a cached vanguard shard; the deferred \<^verbatim>\<open>MarkNotInProgress\<close> runs on
  every exit after the mark.
\<close>

definition cachePandoraHeader ::
  "('d, 'pc, 'vc) Collaborators \<Rightarrow> ('d, 'pc, 'vc) Service \<Rightarrow> PandoraHeaderInfo
     \<Rightarrow> MultiShardInfo option \<Rightarrow> u64 \<Rightarrow> error option \<times> ('d, 'pc, 'vc) Service" where
  "cachePandoraHeader D s headerInfo latestShardInfo latestStepId =
     (case pan_Put D (panHeaderCache s) (HSlot headerInfo)
             \<lparr>CurrentVerifiedHeader = Header headerInfo,
              PanLastVerifiedShardInfo = latestShardInfo\<rparr> of
        (Some err, pc1) \<Rightarrow>
          (None, publishBlockConfirmation (s\<lparr>panHeaderCache := pc1\<rparr>)
                   (Hash (Header headerInfo)) 0 Invalid)
      | (None, pc1) \<Rightarrow>
          (case pan_MarkInProgress D pc1 (HSlot headerInfo) of
             (Some err, pc2) \<Rightarrow> (Some err, s\<lparr>panHeaderCache := pc2\<rparr>)
           | (None, pc2) \<Rightarrow>
               (let s1 = s\<lparr>panHeaderCache := pc2\<rparr>;
                    res = (case van_Get D (vanShardCache s1) (HSlot headerInfo) of
                             None \<Rightarrow> (None, s1)
                           | Some entry \<Rightarrow>
                               (case GetVanShard entry of
                                  None \<Rightarrow> (None, s1)
                                | Some v \<Rightarrow>
                                    insertIntoChain D s1 v (Header headerInfo)
                                      latestShardInfo latestStepId))
                in (fst res,
                    (snd res)\<lparr>panHeaderCache :=
                       pan_MarkNotInProgress D (panHeaderCache (snd res)) (HSlot headerInfo)\<rparr>))))"

text \<open>\<^verbatim>\<open>processPandoraHeader\<close>, lines 35-80: everything after the short-circuit.\<close>

definition pandoraNormalPath ::
  "('d, 'pc, 'vc) Collaborators \<Rightarrow> ('d, 'pc, 'vc) Service \<Rightarrow> PandoraHeaderInfo
     \<Rightarrow> error option \<times> ('d, 'pc, 'vc) Service" where
  "pandoraNormalPath D s headerInfo =
     (case loadLatest D s of
        Inl err \<Rightarrow> (Some err, s)
      | Inr latest \<Rightarrow>
          (case reorgLatest s (Header headerInfo) latest of
             (latestShardInfo, latestStepId) \<Rightarrow>
               cachePandoraHeader D s headerInfo latestShardInfo latestStepId))"

text \<open>\<^verbatim>\<open>processPandoraHeader\<close> (handler.go, 20-81).\<close>

definition processPandoraHeader ::
  "('d, 'pc, 'vc) Collaborators \<Rightarrow> ('d, 'pc, 'vc) Service \<Rightarrow> PandoraHeaderInfo option
     \<Rightarrow> error option \<times> ('d, 'pc, 'vc) Service" where
  "processPandoraHeader D s headerInfo =
     (case headerInfo of
        None \<Rightarrow> (None, s)
      | Some hi \<Rightarrow>
          (case panAlreadyVerified D s hi of
             Some shardInfo \<Rightarrow>
               (None, publishBlockConfirmation s (GetPanShardRoot shardInfo)
                        (GetVanSlotRoot shardInfo) Verified)
           | None \<Rightarrow> pandoraNormalPath D s hi))"

text \<open>
  The early-return test of \<^verbatim>\<open>processVanguardShardInfo\<close> (handler.go, 92-93): the source
  compares with \<^verbatim>\<open>!=\<close>.
\<close>

definition vanEarlyReturn ::
  "('d, 'pc, 'vc) Collaborators \<Rightarrow> ('d, 'pc, 'vc) Service \<Rightarrow> VanguardShardInfo \<Rightarrow> bool" where
  "vanEarlyReturn D s vanShardInfo =
     (case getShardingInfo D s (Slot vanShardInfo) of
        None \<Rightarrow> False
      | Some shardInfo \<Rightarrow>
          NotNil (Some shardInfo) \<and> GetVanSlotRoot shardInfo \<noteq> BlockRoot vanShardInfo)"

text \<open>
  \<^verbatim>\<open>processVanguardShardInfo\<close>, lines 118-127: the reorg status is written only when
  there is none or the present one names the same block root.
\<close>

definition installReorgStatus ::
  "('d, 'pc, 'vc) Service \<Rightarrow> VanguardShardInfo \<Rightarrow> MultiShardInfo option \<Rightarrow> u64
     \<Rightarrow> ('d, 'pc, 'vc) Service" where
  "installReorgStatus s vanShardInfo parentShardInfo parentStepId =
     (if (case curReorgStatus s of
            None \<Rightarrow> True
          | Some rs \<Rightarrow> RBlockRoot rs = BlockRoot vanShardInfo)
      then s\<lparr>curReorgStatus := Some
               \<lparr>RSlot = Slot vanShardInfo,
                RBlockRoot = BlockRoot vanShardInfo,
                ParentStepId = parentStepId,
                ParentShardInfo = parentShardInfo,
                PandoraHash = BytesToHash (ShardHash (ShardInfo vanShardInfo)),
                HasResolved = False\<rparr>\<rparr>
      else s)"

text \<open>
  \<^verbatim>\<open>processVanguardShardInfo\<close>, lines 133-171: the current slot from the clock (the
  division panics when \<^verbatim>\<open>secondsPerSlot\<close> is 0; the subtraction wraps), the put into the
  vanguard cache (a rejected put returns nil and publishes nothing), the in-progress
  mark, and the pairing with a cached pandora header.
\<close>

definition cacheVanguardShard ::
  "('d, 'pc, 'vc) Collaborators \<Rightarrow> ('d, 'pc, 'vc) Service \<Rightarrow> u64 \<Rightarrow> VanguardShardInfo
     \<Rightarrow> MultiShardInfo option \<Rightarrow> u64 \<Rightarrow> error option \<times> ('d, 'pc, 'vc) Service" where
  "cacheVanguardShard D s nowTime vanShardInfo headShardInfo headStepId =
     (if secondsPerSlot s = 0 then (Some PanicDivideByZero, s)
      else
        (let currentSlot = (nowTime - genesisTime s) div secondsPerSlot s;
             disableDelete = (Slot vanShardInfo < currentSlot)
         in case van_Put D (vanShardCache s) (Slot vanShardInfo)
                   \<lparr>DisableDelete = disableDelete,
                    CurrentShardInfo = vanShardInfo,
                    VanLastVerifiedShardInfo = headShardInfo\<rparr> of
              (Some err, vc1) \<Rightarrow> (None, s\<lparr>vanShardCache := vc1\<rparr>)
            | (None, vc1) \<Rightarrow>
                (case van_MarkInProgress D vc1 (Slot vanShardInfo) of
                   (Some err, vc2) \<Rightarrow> (Some err, s\<lparr>vanShardCache := vc2\<rparr>)
                 | (None, vc2) \<Rightarrow>
                     (let s1 = s\<lparr>vanShardCache := vc2\<rparr>;
                          res = (case pan_Get D (panHeaderCache s1) (Slot vanShardInfo) of
                                   None \<Rightarrow> (None, s1)
                                 | Some entry \<Rightarrow>
                                     (case GetPanHeader entry of
                                        None \<Rightarrow> (None, s1)
                                      | Some h \<Rightarrow>
                                          insertIntoChain D s1 vanShardInfo h
                                            headShardInfo headStepId))
                      in (fst res,
                          (snd res)\<lparr>vanShardCache :=
                             van_MarkNotInProgress D (vanShardCache (snd res))
                               (Slot vanShardInfo)\<rparr>)))))"

text \<open>\<^verbatim>\<open>processVanguardShardInfo\<close>, lines 99-171: everything after the early return.\<close>

definition vanguardNormalPath ::
  "('d, 'pc, 'vc) Collaborators \<Rightarrow> ('d, 'pc, 'vc) Service \<Rightarrow> u64 \<Rightarrow> VanguardShardInfo
     \<Rightarrow> error option \<times> ('d, 'pc, 'vc) Service" where
  "vanguardNormalPath D s nowTime vanShardInfo =
     (case loadLatest D s of
        Inl err \<Rightarrow> (Some err, s)
      | Inr (headShardInfo, headStepId) \<Rightarrow>
          (case checkReorg D (db s) vanShardInfo headShardInfo headStepId of
             Inl err \<Rightarrow> (None, s)
           | Inr (parentShardInfo, parentStepId) \<Rightarrow>
               if parentShardInfo \<noteq> None \<and> NotNil parentShardInfo
               then cacheVanguardShard D
                      (installReorgStatus s vanShardInfo parentShardInfo parentStepId)
                      nowTime vanShardInfo parentShardInfo parentStepId
               else cacheVanguardShard D s nowTime vanShardInfo headShardInfo headStepId))"

text \<open>
  \<^verbatim>\<open>processVanguardShardInfo\<close> (handler.go, 84-172); \<open>nowTime\<close> is
  \<^verbatim>\<open>uint64(time.Now().Unix())\<close>.
\<close>

definition processVanguardShardInfo ::
  "('d, 'pc, 'vc) Collaborators \<Rightarrow> ('d, 'pc, 'vc) Service \<Rightarrow> u64 \<Rightarrow> VanguardShardInfo option
     \<Rightarrow> error option \<times> ('d, 'pc, 'vc) Service" where
  "processVanguardShardInfo D s nowTime vanShardInfo =
     (case vanShardInfo of
        None \<Rightarrow> (None, s)
      | Some v \<Rightarrow>
          if vanEarlyReturn D s v then (None, s)
          else vanguardNormalPath D s nowTime v)"

section \<open>What the statements observe\<close>

text \<open>The confirmations sent on the feed between the state \<open>s\<close> and a later state \<open>s'\<close>.\<close>

definition published ::
  "('d, 'pc, 'vc) Service \<Rightarrow> ('d, 'pc, 'vc) Service \<Rightarrow> SlotInfoWithStatus list" where
  "published s s' = drop (length (verifiedSlotInfoFeed s)) (verifiedSlotInfoFeed s')"

text \<open>A sequence of \<^verbatim>\<open>writeFinalizeInfo\<close> calls, each with its slot and epoch.\<close>

definition writeFinalizeInfos ::
  "('d, 'pc, 'vc) Collaborators \<Rightarrow> ('d, 'pc, 'vc) Service \<Rightarrow> (u64 \<times> u64) list
     \<Rightarrow> ('d, 'pc, 'vc) Service" where
  "writeFinalizeInfos D s calls =
     foldl (\<lambda>st (finalizeSlot, finalizeEpoch). writeFinalizeInfo D st finalizeSlot finalizeEpoch)
       s calls"

text \<open>
  Modelled from the spec: the store's two finality scalars are keys of a durable map
  (4.1, persisted layout). A save of one scalar leaves it at the saved value or at the old
  one (a failed or ignored save), and leaves the other scalar alone.
\<close>

definition finalityKeys :: "('d, 'pc, 'vc) Collaborators \<Rightarrow> bool" where
  "finalityKeys D =
     (\<forall>d x. (db_FinalizedSlot D (snd (db_SaveFinalizedSlot D d x)) = x
               \<or> db_FinalizedSlot D (snd (db_SaveFinalizedSlot D d x)) = db_FinalizedSlot D d)
            \<and> db_FinalizedEpoch D (snd (db_SaveFinalizedSlot D d x)) = db_FinalizedEpoch D d
            \<and> (db_FinalizedEpoch D (snd (db_SaveFinalizedEpoch D d x)) = x
               \<or> db_FinalizedEpoch D (snd (db_SaveFinalizedEpoch D d x)) = db_FinalizedEpoch D d)
            \<and> db_FinalizedSlot D (snd (db_SaveFinalizedEpoch D d x)) = db_FinalizedSlot D d)"

section \<open>An in-memory instance of the collaborators\<close>

text \<open>
  Modelled from the spec: the shard store (4.1), the two caches (4.2, 4.3) and the reorg
  controller (4.4) are not among the sources. This instance keeps the store and the caches
  as association lists, newest entry first, and is used to run the handlers on concrete
  inputs. The theorems below hold for every instance of the collaborators.
\<close>

record MemDB =
  mem_verified :: "(u64 \<times> MultiShardInfo) list"
  mem_slotIndex :: "(u64 \<times> u64) list"
  mem_latestStepId :: u64
  mem_finalizedSlot :: u64
  mem_finalizedEpoch :: u64

type_synonym MemPanCache = "(u64 \<times> PanCacheEntry) list"
type_synonym MemVanCache = "(u64 \<times> VanCacheEntry) list"

text \<open>
  Modelled from the spec: invariant 1 of the data model for a record appended after
  \<open>prev\<close>.
\<close>

definition linksTo :: "MultiShardInfo option \<Rightarrow> MultiShardInfo \<Rightarrow> bool" where
  "linksTo prev r =
     (case prev of
        None \<Rightarrow> True
      | Some p \<Rightarrow>
          parent_root r = slot_block_root p
          \<and> (case (shards r, shards p) of
                (sh # _, ph # _) \<Rightarrow> shard_parent_hash sh = shard_hash ph
              | _ \<Rightarrow> False))"

definition mem_SaveVerifiedShardInfo ::
  "MemDB \<Rightarrow> u64 \<Rightarrow> MultiShardInfo \<Rightarrow> error option \<times> MemDB" where
  "mem_SaveVerifiedShardInfo d stepId r =
     (if stepId \<le> mem_latestStepId d then (Some (ErrNew ''step id not above the head''), d)
      else if \<not> linksTo (map_of (mem_verified d) (stepId - 1)) r
      then (Some (ErrNew ''parent link broken''), d)
      else (None, d\<lparr>mem_verified := (stepId, r) # mem_verified d\<rparr>))"

definition mem_GetStepIdBySlot :: "MemDB \<Rightarrow> u64 \<Rightarrow> error + u64" where
  "mem_GetStepIdBySlot d slt =
     (case map_of (mem_slotIndex d) slt of
        None \<Rightarrow> Inl (ErrNew ''slot not indexed'')
      | Some stepId \<Rightarrow> Inr stepId)"

definition mem_SaveFinalizedSlot :: "MemDB \<Rightarrow> u64 \<Rightarrow> error option \<times> MemDB" where
  "mem_SaveFinalizedSlot d x = (None, if mem_finalizedSlot d < x then d\<lparr>mem_finalizedSlot := x\<rparr> else d)"

definition mem_SaveFinalizedEpoch :: "MemDB \<Rightarrow> u64 \<Rightarrow> error option \<times> MemDB" where
  "mem_SaveFinalizedEpoch d x =
     (None, if mem_finalizedEpoch d < x then d\<lparr>mem_finalizedEpoch := x\<rparr> else d)"

text \<open>
  Modelled from the spec: the trigger and the common-ancestor search of 4.4: a reorg is triggered when the incoming
  parent root is not the head's consensus root and a record below the head has it; the
  ancestor is the newest such record. Without one there is no reorg.
\<close>

definition mem_checkReorg ::
  "MemDB \<Rightarrow> VanguardShardInfo \<Rightarrow> MultiShardInfo option \<Rightarrow> u64
     \<Rightarrow> error + (MultiShardInfo option \<times> u64)" where
  "mem_checkReorg d v head headStepId =
     (case head of
        None \<Rightarrow> Inr (None, 0)
      | Some hd_rec \<Rightarrow>
          if headStepId = 0 \<or> ParentRoot v = slot_block_root hd_rec then Inr (None, 0)
          else (case find (\<lambda>(i, r). i < headStepId \<and> slot_block_root r = ParentRoot v)
                       (mem_verified d) of
                  None \<Rightarrow> Inr (None, 0)
                | Some (i, r) \<Rightarrow> Inr (Some r, i)))"

text \<open>
  Modelled from the spec: \<^verbatim>\<open>process_reorg\<close> of 4.4 removes the records above the
  ancestor and rewinds the head.
\<close>

definition mem_processReorg ::
  "MemDB \<Rightarrow> u64 \<Rightarrow> MultiShardInfo option \<Rightarrow> error option \<times> MemDB" where
  "mem_processReorg d parentStepId parentShardInfo =
     (None, d\<lparr>mem_verified := filter (\<lambda>(i, r). i \<le> parentStepId) (mem_verified d),
              mem_slotIndex := filter (\<lambda>(sl, i). i \<le> parentStepId) (mem_slotIndex d),
              mem_latestStepId := parentStepId\<rparr>)"

text \<open>
  Modelled from the spec: the pandora cache's put (4.2) fails with \<^verbatim>\<open>UnknownParent\<close> when no cached header has
  the parent hash, the last verified record is there and its top shard has another hash,
  and the header is not the first after genesis (block number 1).
\<close>

definition mem_pan_Put ::
  "MemPanCache \<Rightarrow> u64 \<Rightarrow> PanCacheInsertParams \<Rightarrow> error option \<times> MemPanCache" where
  "mem_pan_Put c slt p =
     (let h = CurrentVerifiedHeader p
      in if \<not> list_ex (\<lambda>(sl, e). map_option Hash (GetPanHeader e) = Some (ParentHash h)) c
            \<and> (case PanLastVerifiedShardInfo p of
                 None \<Rightarrow> False
               | Some r \<Rightarrow> GetPanShardRoot r \<noteq> ParentHash h)
            \<and> Number h \<noteq> 1
         then (Some (ErrNew ''unknown parent''), c)
         else (None,
               (slt, \<lparr>GetPanHeader = Some h,
                      pan_last_verified_shard_info = PanLastVerifiedShardInfo p,
                      pan_in_progress = False\<rparr>) # filter (\<lambda>(sl, e). sl \<noteq> slt) c))"

definition mem_pan_MarkInProgress :: "MemPanCache \<Rightarrow> u64 \<Rightarrow> error option \<times> MemPanCache" where
  "mem_pan_MarkInProgress c slt =
     (case map_of c slt of
        None \<Rightarrow> (None, c)
      | Some e \<Rightarrow>
          if pan_in_progress e then (Some (ErrNew ''already in progress''), c)
          else (None, map (\<lambda>(sl, e). if sl = slt then (sl, e\<lparr>pan_in_progress := True\<rparr>)
                                     else (sl, e)) c))"

definition mem_pan_MarkNotInProgress :: "MemPanCache \<Rightarrow> u64 \<Rightarrow> MemPanCache" where
  "mem_pan_MarkNotInProgress c slt =
     map (\<lambda>(sl, e). if sl = slt then (sl, e\<lparr>pan_in_progress := False\<rparr>) else (sl, e)) c"

text \<open>
  Modelled from the spec: the vanguard cache's put (4.3) accepts a shard whose parent root is the last verified
  consensus root or the block root cached at the slot before, and any shard when nothing
  is verified yet.
\<close>

definition mem_van_Put ::
  "MemVanCache \<Rightarrow> u64 \<Rightarrow> VanCacheInsertParams \<Rightarrow> error option \<times> MemVanCache" where
  "mem_van_Put c slt p =
     (let v = CurrentShardInfo p
      in if (case VanLastVerifiedShardInfo p of
               None \<Rightarrow> True
             | Some r \<Rightarrow> slot_block_root r = ParentRoot v)
            \<or> (case map_of c (slt - 1) of
                 None \<Rightarrow> False
               | Some e \<Rightarrow> map_option BlockRoot (GetVanShard e) = Some (ParentRoot v))
         then (None,
               (slt, \<lparr>GetVanShard = Some v,
                      van_last_verified_shard_info = VanLastVerifiedShardInfo p,
                      van_disable_delete = DisableDelete p,
                      van_in_progress = False\<rparr>) # filter (\<lambda>(sl, e). sl \<noteq> slt) c)
         else (Some (ErrNew ''unknown parent''), c))"

definition mem_van_MarkInProgress :: "MemVanCache \<Rightarrow> u64 \<Rightarrow> error option \<times> MemVanCache" where
  "mem_van_MarkInProgress c slt =
     (case map_of c slt of
        None \<Rightarrow> (None, c)
      | Some e \<Rightarrow>
          if van_in_progress e then (Some (ErrNew ''already in progress''), c)
          else (None, map (\<lambda>(sl, e). if sl = slt then (sl, e\<lparr>van_in_progress := True\<rparr>)
                                     else (sl, e)) c))"

definition mem_van_MarkNotInProgress :: "MemVanCache \<Rightarrow> u64 \<Rightarrow> MemVanCache" where
  "mem_van_MarkNotInProgress c slt =
     map (\<lambda>(sl, e). if sl = slt then (sl, e\<lparr>van_in_progress := False\<rparr>) else (sl, e)) c"

text \<open>
  Modelled from the spec: \<^verbatim>\<open>prepare_multi_shard\<close> builds the record of a pair from the
  slot and roots of the shard, with the header as its one execution shard.
\<close>

definition mem_PrepareMultiShardData ::
  "VanguardShardInfo \<Rightarrow> Header \<Rightarrow> u64 \<Rightarrow> u64 \<Rightarrow> MultiShardInfo" where
  "mem_PrepareMultiShardData v h totalShards shardsPerBlock =
     \<lparr>slot = Slot v, slot_block_root = BlockRoot v, parent_root = ParentRoot v,
      shards = [\<lparr>shard_hash = Hash h, shard_parent_hash = ParentHash h\<rparr>]\<rparr>"

text \<open>
  Modelled from the spec: the structural compare (4.5); of the mirrored fields these
  types carry the hash.
\<close>

definition mem_compareShardingInfo :: "Header \<Rightarrow> PandoraShard \<Rightarrow> bool" where
  "mem_compareShardingInfo h sh = (BytesToHash (ShardHash sh) = Hash h)"

definition Mem :: "(MemDB, MemPanCache, MemVanCache) Collaborators" where
  "Mem =
     \<lparr>db_LatestStepID = mem_latestStepId,
      db_VerifiedShardInfo = (\<lambda>d stepId. Inr (map_of (mem_verified d) stepId)),
      db_GetStepIdBySlot = mem_GetStepIdBySlot,
      db_SaveVerifiedShardInfo = mem_SaveVerifiedShardInfo,
      db_SaveLatestStepID = (\<lambda>d stepId. (None, d\<lparr>mem_latestStepId := stepId\<rparr>)),
      db_SaveSlotStepIndex = (\<lambda>d slt stepId. (None, d\<lparr>mem_slotIndex := (slt, stepId) # mem_slotIndex d\<rparr>)),
      db_FinalizedSlot = mem_finalizedSlot,
      db_FinalizedEpoch = mem_finalizedEpoch,
      db_SaveFinalizedSlot = mem_SaveFinalizedSlot,
      db_SaveFinalizedEpoch = mem_SaveFinalizedEpoch,
      pan_Put = mem_pan_Put,
      pan_MarkInProgress = mem_pan_MarkInProgress,
      pan_MarkNotInProgress = mem_pan_MarkNotInProgress,
      pan_Get = map_of,
      pan_ForceDelSlot = (\<lambda>c slt. filter (\<lambda>(sl, e). sl \<noteq> slt) c),
      van_Put = mem_van_Put,
      van_MarkInProgress = mem_van_MarkInProgress,
      van_MarkNotInProgress = mem_van_MarkNotInProgress,
      van_Get = map_of,
      van_ForceDelSlot = (\<lambda>c slt. filter (\<lambda>(sl, e). sl \<noteq> slt) c),
      compareShardingInfo = mem_compareShardingInfo,
      checkReorg = mem_checkReorg,
      processReorg = mem_processReorg,
      PrepareMultiShardData = mem_PrepareMultiShardData\<rparr>"

text \<open>The fresh service at genesis: nothing verified, empty caches, no reorg, 6-second slots.\<close>

definition genesis :: "(MemDB, MemPanCache, MemVanCache) Service" where
  "genesis =
     \<lparr>db = \<lparr>mem_verified = [], mem_slotIndex = [], mem_latestStepId = 0,
            mem_finalizedSlot = 0, mem_finalizedEpoch = 0\<rparr>,
      panHeaderCache = [], vanShardCache = [], curReorgStatus = None,
      verifiedSlotInfoFeed = [], genesisTime = 0, secondsPerSlot = 6\<rparr>"

text \<open>
  The chain of the spec's scenarios 1 and 2: the pair of slot 1 (header \<open>0x11\<close>, root
  \<open>0xAA\<close>) and the pair of slot 2 (header \<open>0x22\<close>, root \<open>0xBB\<close>) that extends it.
\<close>

definition v1 :: VanguardShardInfo where
  "v1 = \<lparr>Slot = 1, BlockRoot = 0xAA, ParentRoot = 0, FinalizedSlot = 0, FinalizedEpoch = 0,
         ShardInfo = \<lparr>ShardHash = [0x11]\<rparr>\<rparr>"

definition h1 :: PandoraHeaderInfo where
  "h1 = \<lparr>HSlot = 1, Header = \<lparr>Number = 1, ParentHash = 0, Hash = 0x11\<rparr>\<rparr>"

definition v2 :: VanguardShardInfo where
  "v2 = \<lparr>Slot = 2, BlockRoot = 0xBB, ParentRoot = 0xAA, FinalizedSlot = 0, FinalizedEpoch = 0,
         ShardInfo = \<lparr>ShardHash = [0x22]\<rparr>\<rparr>"

definition h2 :: PandoraHeaderInfo where
  "h2 = \<lparr>HSlot = 2, Header = \<lparr>Number = 2, ParentHash = 0x11, Hash = 0x22\<rparr>\<rparr>"

text \<open>The service after scenarios 1 and 2, as the handlers leave it.\<close>

definition committed2 :: "(MemDB, MemPanCache, MemVanCache) Service" where
  "committed2 =
     \<lparr>db = \<lparr>mem_verified =
              [(2, \<lparr>slot = 2, slot_block_root = 0xBB, parent_root = 0xAA,
                    shards = [\<lparr>shard_hash = 0x22, shard_parent_hash = 0x11\<rparr>]\<rparr>),
               (1, \<lparr>slot = 1, slot_block_root = 0xAA, parent_root = 0,
                    shards = [\<lparr>shard_hash = 0x11, shard_parent_hash = 0\<rparr>]\<rparr>)],
            mem_slotIndex = [(2, 2), (1, 1)], mem_latestStepId = 2,
            mem_finalizedSlot = 0, mem_finalizedEpoch = 0\<rparr>,
      panHeaderCache = [], vanShardCache = [], curReorgStatus = None,
      verifiedSlotInfoFeed =
        [\<lparr>PandoraHeaderHash = 0x11, VanguardBlockHash = 0xAA, Status = Verified\<rparr>,
         \<lparr>PandoraHeaderHash = 0x22, VanguardBlockHash = 0xBB, Status = Verified\<rparr>],
      genesisTime = 0, secondsPerSlot = 6\<rparr>"

text \<open>The instance with a store whose head-pointer write, rewind or record read fails.\<close>

definition MemWriteFault :: "(MemDB, MemPanCache, MemVanCache) Collaborators" where
  "MemWriteFault = Mem\<lparr>db_SaveLatestStepID := (\<lambda>d stepId. (Some (ErrNew ''disk full''), d))\<rparr>"

definition MemReorgFault :: "(MemDB, MemPanCache, MemVanCache) Collaborators" where
  "MemReorgFault =
     Mem\<lparr>processReorg := (\<lambda>d stepId r. (Some (ErrNew ''remove range failed''), d))\<rparr>"

definition MemReadFault :: "(MemDB, MemPanCache, MemVanCache) Collaborators" where
  "MemReadFault = Mem\<lparr>db_VerifiedShardInfo := (\<lambda>d stepId. Inl (ErrNew ''decode failed''))\<rparr>"

text \<open>The service at genesis with the pair of slot 1 waiting in both caches.\<close>

definition pending1 :: "(MemDB, MemPanCache, MemVanCache) Service" where
  "pending1 =
     genesis\<lparr>panHeaderCache :=
               [(1, \<lparr>GetPanHeader = Some (Header h1), pan_last_verified_shard_info = None,
                     pan_in_progress = True\<rparr>)],
             vanShardCache :=
               [(1, \<lparr>GetVanShard = Some v1, van_last_verified_shard_info = None,
                     van_disable_delete = False, van_in_progress = False\<rparr>)]\<rparr>"

text \<open>
  Two competing blocks for slot 3 that fork off the record of slot 1 (roots \<open>0xCC\<close> and
  \<open>0xDD\<close>), the header of the second, and a slot-2 shard with another root than the
  verified one.
\<close>

definition v3a :: VanguardShardInfo where
  "v3a = \<lparr>Slot = 3, BlockRoot = 0xCC, ParentRoot = 0xAA, FinalizedSlot = 0, FinalizedEpoch = 0,
          ShardInfo = \<lparr>ShardHash = [0x44]\<rparr>\<rparr>"

definition v3b :: VanguardShardInfo where
  "v3b = \<lparr>Slot = 3, BlockRoot = 0xDD, ParentRoot = 0xAA, FinalizedSlot = 0, FinalizedEpoch = 0,
          ShardInfo = \<lparr>ShardHash = [0x33]\<rparr>\<rparr>"

definition h3b :: PandoraHeaderInfo where
  "h3b = \<lparr>HSlot = 3, Header = \<lparr>Number = 2, ParentHash = 0x11, Hash = 0x33\<rparr>\<rparr>"

definition v2x :: VanguardShardInfo where
  "v2x = \<lparr>Slot = 2, BlockRoot = 0xEE, ParentRoot = 0xAA, FinalizedSlot = 0, FinalizedEpoch = 0,
          ShardInfo = \<lparr>ShardHash = [0x55]\<rparr>\<rparr>"

text \<open>The orphans of the spec's scenario 6: parents \<open>0xDEAD\<close> that nothing knows.\<close>

definition hOrphan :: PandoraHeaderInfo where
  "hOrphan = \<lparr>HSlot = 3, Header = \<lparr>Number = 3, ParentHash = 0xDEAD, Hash = 0x99\<rparr>\<rparr>"

definition vOrphan :: VanguardShardInfo where
  "vOrphan = \<lparr>Slot = 3, BlockRoot = 0x77, ParentRoot = 0xDEAD, FinalizedSlot = 0,
              FinalizedEpoch = 0, ShardInfo = \<lparr>ShardHash = [0x99]\<rparr>\<rparr>"

text \<open>The verified records of slots 1 and 2.\<close>

definition rec1 :: MultiShardInfo where
  "rec1 = \<lparr>slot = 1, slot_block_root = 0xAA, parent_root = 0,
           shards = [\<lparr>shard_hash = 0x11, shard_parent_hash = 0\<rparr>]\<rparr>"

definition rec2 :: MultiShardInfo where
  "rec2 = \<lparr>slot = 2, slot_block_root = 0xBB, parent_root = 0xAA,
           shards = [\<lparr>shard_hash = 0x22, shard_parent_hash = 0x11\<rparr>]\<rparr>"

text \<open>The service after the first, respectively the second, competing block arrived.\<close>

definition forkedCC :: "(MemDB, MemPanCache, MemVanCache) Service" where
  "forkedCC = snd (processVanguardShardInfo Mem committed2 18 (Some v3a))"

definition forkedDD :: "(MemDB, MemPanCache, MemVanCache) Service" where
  "forkedDD = snd (processVanguardShardInfo Mem committed2 18 (Some v3b))"

section \<open>Frame and step lemmas\<close>

text \<open>What each block of the handlers leaves alone, and the two ways the commit ends.\<close>

lemma published_publish:
  "verifiedSlotInfoFeed s1 = verifiedSlotInfoFeed s \<Longrightarrow>
   published s (publishBlockConfirmation s1 a b st)
     = [\<lparr>PandoraHeaderHash = a, VanguardBlockHash = b, Status = st\<rparr>]"
  by (simp add: published_def publishBlockConfirmation_def)

lemma published_same:
  "verifiedSlotInfoFeed s1 = verifiedSlotInfoFeed s \<Longrightarrow> published s s1 = []"
  by (simp add: published_def)

lemma publish_fields:
  "db (publishBlockConfirmation s a b st) = db s"
  "panHeaderCache (publishBlockConfirmation s a b st) = panHeaderCache s"
  "vanShardCache (publishBlockConfirmation s a b st) = vanShardCache s"
  "curReorgStatus (publishBlockConfirmation s a b st) = curReorgStatus s"
  by (simp_all add: publishBlockConfirmation_def)

lemma writeShardInfoInDB_frame:
  "verifiedSlotInfoFeed (snd (writeShardInfoInDB D s r)) = verifiedSlotInfoFeed s"
  "panHeaderCache (snd (writeShardInfoInDB D s r)) = panHeaderCache s"
  "vanShardCache (snd (writeShardInfoInDB D s r)) = vanShardCache s"
  "curReorgStatus (snd (writeShardInfoInDB D s r)) = curReorgStatus s"
  by (auto simp: writeShardInfoInDB_def Let_def split: prod.splits option.splits)

lemma writeFinalizeInfo_frame:
  "verifiedSlotInfoFeed (writeFinalizeInfo D s a b) = verifiedSlotInfoFeed s"
  "panHeaderCache (writeFinalizeInfo D s a b) = panHeaderCache s"
  "vanShardCache (writeFinalizeInfo D s a b) = vanShardCache s"
  "curReorgStatus (writeFinalizeInfo D s a b) = curReorgStatus s"
  by (auto simp: writeFinalizeInfo_def Let_def)

lemma resolveReorg_frame:
  "verifiedSlotInfoFeed (snd (resolveReorg D s v)) = verifiedSlotInfoFeed s"
  "panHeaderCache (snd (resolveReorg D s v)) = panHeaderCache s"
  "vanShardCache (snd (resolveReorg D s v)) = vanShardCache s"
  by (auto simp: resolveReorg_def split: option.splits prod.splits)

lemma writeShardInfoInDB_frameD:
  "writeShardInfoInDB D s r = (e, s1) \<Longrightarrow>
     verifiedSlotInfoFeed s1 = verifiedSlotInfoFeed s \<and> panHeaderCache s1 = panHeaderCache s
     \<and> vanShardCache s1 = vanShardCache s \<and> curReorgStatus s1 = curReorgStatus s"
  using writeShardInfoInDB_frame [of D s r] by simp

lemma resolveReorg_frameD:
  "resolveReorg D s v = (e, s1) \<Longrightarrow>
     verifiedSlotInfoFeed s1 = verifiedSlotInfoFeed s \<and> panHeaderCache s1 = panHeaderCache s
     \<and> vanShardCache s1 = vanShardCache s"
  using resolveReorg_frame [of D s v] by simp

lemma commitVerified_error:
  "writeShardInfoInDB D s
     (PrepareMultiShardData D v h TotalExecutionShardCount ShardsPerVanBlock) = (Some e, s1)
   \<Longrightarrow> commitVerified D s v h = (Some (ErrWrap e ''failed to write shard info in db''), s1)"
  by (simp add: commitVerified_def)

lemma commitVerified_ok:
  assumes "writeShardInfoInDB D s
     (PrepareMultiShardData D v h TotalExecutionShardCount ShardsPerVanBlock) = (None, s1)"
  shows "fst (commitVerified D s v h) = None"
    and "published s (snd (commitVerified D s v h))
           = [\<lparr>PandoraHeaderHash = Hash h, VanguardBlockHash = BlockRoot v, Status = Verified\<rparr>]"
    and "curReorgStatus (snd (commitVerified D s v h)) = curReorgStatus s"
  using assms writeShardInfoInDB_frameD [OF assms]
  by (simp_all add: commitVerified_def Let_def published_publish writeFinalizeInfo_frame
        publish_fields)

lemma commitVerified_curReorgStatus:
  "curReorgStatus (snd (commitVerified D s v h)) = curReorgStatus s"
proof (cases "writeShardInfoInDB D s
     (PrepareMultiShardData D v h TotalExecutionShardCount ShardsPerVanBlock)")
  case (Pair e s1)
  show ?thesis
  proof (cases e)
    case None
    with Pair commitVerified_ok(3) [of D s v h s1] show ?thesis by simp
  next
    case (Some err)
    with Pair commitVerified_error [of D s v h err s1] writeShardInfoInDB_frameD [OF Pair]
    show ?thesis by simp
  qed
qed

lemma installReorgStatus_frame:
  "verifiedSlotInfoFeed (installReorgStatus s v p pid) = verifiedSlotInfoFeed s"
  "panHeaderCache (installReorgStatus s v p pid) = panHeaderCache s"
  "vanShardCache (installReorgStatus s v p pid) = vanShardCache s"
  "db (installReorgStatus s v p pid) = db s"
  "secondsPerSlot (installReorgStatus s v p pid) = secondsPerSlot s"
  "genesisTime (installReorgStatus s v p pid) = genesisTime s"
  by (simp_all add: installReorgStatus_def)

lemma cacheVanguardShard_no_header:
  assumes "pan_Get D (panHeaderCache s) (Slot v) = None"
  shows "published s0 (snd (cacheVanguardShard D s nowTime v hdInfo hid)) = published s0 s
       \<and> db (snd (cacheVanguardShard D s nowTime v hdInfo hid)) = db s"
  using assms
  by (auto simp: cacheVanguardShard_def Let_def published_def split: prod.splits option.splits)

lemma vanguardNormalPath_no_header:
  assumes "pan_Get D (panHeaderCache s) (Slot v) = None"
  shows "published s0 (snd (vanguardNormalPath D s nowTime v)) = published s0 s
       \<and> db (snd (vanguardNormalPath D s nowTime v)) = db s"
proof -
  have a: "pan_Get D (panHeaderCache (installReorgStatus s v p pid)) (Slot v) = None" for p pid
    using assms by (simp add: installReorgStatus_frame)
  show ?thesis
    using cacheVanguardShard_no_header [OF assms, where ?s0.0 = s0 and nowTime = nowTime]
          cacheVanguardShard_no_header [OF a, where ?s0.0 = s0 and nowTime = nowTime]
    by (auto simp: vanguardNormalPath_def installReorgStatus_frame published_def
             split: sum.splits prod.splits)
qed

lemma getShardingInfo_publish:
  "getShardingInfo D (publishBlockConfirmation s a b st) slt = getShardingInfo D s slt"
  unfolding getShardingInfo_def publish_fields ..

lemma finalityKeysD:
  assumes "finalityKeys D"
  shows "db_FinalizedSlot D (snd (db_SaveFinalizedSlot D d x)) = x
           \<or> db_FinalizedSlot D (snd (db_SaveFinalizedSlot D d x)) = db_FinalizedSlot D d"
    and "db_FinalizedEpoch D (snd (db_SaveFinalizedSlot D d x)) = db_FinalizedEpoch D d"
    and "db_FinalizedEpoch D (snd (db_SaveFinalizedEpoch D d x)) = x
           \<or> db_FinalizedEpoch D (snd (db_SaveFinalizedEpoch D d x)) = db_FinalizedEpoch D d"
    and "db_FinalizedSlot D (snd (db_SaveFinalizedEpoch D d x)) = db_FinalizedSlot D d"
  using assms unfolding finalityKeys_def by blast+

lemma writeFinalizeInfo_slot:
  assumes "finalityKeys D"
  shows "db_FinalizedSlot D (db (writeFinalizeInfo D s fs fe)) =
           (if db_FinalizedSlot D (db s) < fs
            then db_FinalizedSlot D (snd (db_SaveFinalizedSlot D (db s) fs))
            else db_FinalizedSlot D (db s))"
  using finalityKeysD(4) [OF assms]
  by (simp add: writeFinalizeInfo_def Let_def)

lemma writeFinalizeInfo_epoch:
  assumes "finalityKeys D"
  shows "db_FinalizedEpoch D (db (writeFinalizeInfo D s fs fe)) =
           (if db_FinalizedEpoch D (db s) < fe
            then db_FinalizedEpoch D (snd (db_SaveFinalizedEpoch D
                   (if db_FinalizedSlot D (db s) < fs
                    then snd (db_SaveFinalizedSlot D (db s) fs) else db s) fe))
            else db_FinalizedEpoch D (db s))"
  using finalityKeysD(2) [OF assms]
  by (simp add: writeFinalizeInfo_def Let_def)

lemma writeFinalizeInfo_mono:
  assumes "finalityKeys D"
  shows "db_FinalizedSlot D (db s) \<le> db_FinalizedSlot D (db (writeFinalizeInfo D s fs fe))"
    and "db_FinalizedEpoch D (db s) \<le> db_FinalizedEpoch D (db (writeFinalizeInfo D s fs fe))"
proof -
  show "db_FinalizedSlot D (db s) \<le> db_FinalizedSlot D (db (writeFinalizeInfo D s fs fe))"
    using finalityKeysD(1) [OF assms, of "db s" fs]
    by (auto simp: writeFinalizeInfo_slot [OF assms])
  show "db_FinalizedEpoch D (db s) \<le> db_FinalizedEpoch D (db (writeFinalizeInfo D s fs fe))"
    using finalityKeysD(3) [OF assms, of "db s" fe]
          finalityKeysD(3) [OF assms, of "snd (db_SaveFinalizedSlot D (db s) fs)" fe]
          finalityKeysD(2) [OF assms, of "db s" fs]
    by (auto simp: writeFinalizeInfo_epoch [OF assms])
qed

lemma writeFinalizeInfos_mono:
  assumes "finalityKeys D"
  shows "db_FinalizedSlot D (db s) \<le> db_FinalizedSlot D (db (writeFinalizeInfos D s calls))
       \<and> db_FinalizedEpoch D (db s) \<le> db_FinalizedEpoch D (db (writeFinalizeInfos D s calls))"
proof (induction calls arbitrary: s)
  case Nil
  show ?case by (simp add: writeFinalizeInfos_def)
next
  case (Cons c calls)
  obtain fs fe where c: "c = (fs, fe)" by (cases c)
  have step: "writeFinalizeInfos D s (c # calls)
                = writeFinalizeInfos D (writeFinalizeInfo D s fs fe) calls"
    by (simp add: writeFinalizeInfos_def c)
  from Cons [of "writeFinalizeInfo D s fs fe"] writeFinalizeInfo_mono [OF assms, of s fs fe]
  show ?case unfolding step by (meson order_trans)
qed

text \<open>The unfolding rules that evaluate the handlers on the in-memory instance.\<close>

lemmas handler_defs =
  processPandoraHeader_def processVanguardShardInfo_def pandoraNormalPath_def
  vanguardNormalPath_def cachePandoraHeader_def cacheVanguardShard_def insertIntoChain_def
  commitVerified_def resolveReorg_def writeShardInfoInDB_def writeFinalizeInfo_def
  getShardingInfo_def publishBlockConfirmation_def loadLatest_def panAlreadyVerified_def
  vanEarlyReturn_def reorgLatest_def installReorgStatus_def verifyShardInfo_def NotNil_def
  GetPanShardRoot_def GetVanSlotRoot_def BytesToHash_def TotalExecutionShardCount_def
  ShardsPerVanBlock_def published_def Let_def word_le_nat_alt

lemmas mem_defs =
  Mem_def mem_SaveVerifiedShardInfo_def mem_GetStepIdBySlot_def mem_SaveFinalizedSlot_def
  mem_SaveFinalizedEpoch_def mem_checkReorg_def mem_processReorg_def mem_pan_Put_def
  mem_pan_MarkInProgress_def mem_pan_MarkNotInProgress_def mem_van_Put_def
  mem_van_MarkInProgress_def mem_van_MarkNotInProgress_def mem_PrepareMultiShardData_def
  mem_compareShardingInfo_def linksTo_def MemWriteFault_def MemReorgFault_def MemReadFault_def

lemmas input_defs =
  genesis_def committed2_def pending1_def v1_def h1_def v2_def h2_def v3a_def v3b_def h3b_def
  v2x_def hOrphan_def vOrphan_def rec1_def rec2_def

text \<open>
  The spec's scenarios 1 and 2 on the in-memory instance: the shard of slot 1, its header,
  the header of slot 2 and its shard, from genesis, leave the service in \<open>committed2\<close>.
\<close>

lemma committed2_reachable:
  "snd (processVanguardShardInfo Mem
          (snd (processPandoraHeader Mem
                  (snd (processPandoraHeader Mem
                          (snd (processVanguardShardInfo Mem genesis 6 (Some v1)))
                          (Some h1)))
                  (Some h2)))
          12 (Some v2)) = committed2"
  by (simp add: handler_defs mem_defs input_defs)

section \<open>The status published by \<^verbatim>\<open>insertIntoChain\<close>\<close>

text \<open>
  Claim C1. Every confirmation that \<open>insertIntoChain\<close> publishes for a shard \<open>v\<close> and a
  header \<open>h\<close> carries the pair \<open>(h.hash, v.block_root)\<close>, and its status is \<open>Verified\<close>
  if and only if the structural compare succeeds and the parent-link check succeeds
  (\<open>latestStepId = 0\<close>, or the top shard of the latest record has the hash
  \<open>h.parent_hash\<close> and the record's consensus root is \<open>v.parent_root\<close>). When either
  check fails, the call returns nil, publishes exactly \<open>Invalid\<close> with that pair, and
  leaves the store and both caches as they were. When both checks pass, the call publishes
  exactly \<open>Verified\<close> with that pair and returns nil if the reorg resolution (where one is
  due) and the append succeed, and publishes nothing otherwise.
\<close>

theorem insertIntoChain_status:
  "(\<forall>c \<in> set (published s (snd (insertIntoChain D s v h latest stepId))).
       (Status c = Verified) =
          (compareShardingInfo D h (ShardInfo v) \<and> verifyShardInfo latest h v stepId)
       \<and> PandoraHeaderHash c = Hash h \<and> VanguardBlockHash c = BlockRoot v)
   \<and> (\<not> (compareShardingInfo D h (ShardInfo v) \<and> verifyShardInfo latest h v stepId) \<longrightarrow>
        fst (insertIntoChain D s v h latest stepId) = None
        \<and> published s (snd (insertIntoChain D s v h latest stepId))
            = [\<lparr>PandoraHeaderHash = Hash h, VanguardBlockHash = BlockRoot v, Status = Invalid\<rparr>]
        \<and> db (snd (insertIntoChain D s v h latest stepId)) = db s
        \<and> panHeaderCache (snd (insertIntoChain D s v h latest stepId)) = panHeaderCache s
        \<and> vanShardCache (snd (insertIntoChain D s v h latest stepId)) = vanShardCache s)
   \<and> (compareShardingInfo D h (ShardInfo v) \<and> verifyShardInfo latest h v stepId \<longrightarrow>
        published s (snd (insertIntoChain D s v h latest stepId))
          = (if fst (resolveReorg D s v) = None
                \<and> fst (writeShardInfoInDB D (snd (resolveReorg D s v))
                     (PrepareMultiShardData D v h TotalExecutionShardCount ShardsPerVanBlock))
                   = None
             then [\<lparr>PandoraHeaderHash = Hash h, VanguardBlockHash = BlockRoot v,
                     Status = Verified\<rparr>]
             else [])
        \<and> (fst (resolveReorg D s v) = None
             \<and> fst (writeShardInfoInDB D (snd (resolveReorg D s v))
                  (PrepareMultiShardData D v h TotalExecutionShardCount ShardsPerVanBlock))
                = None
            \<longrightarrow> fst (insertIntoChain D s v h latest stepId) = None))"
proof (cases "compareShardingInfo D h (ShardInfo v) \<and> verifyShardInfo latest h v stepId")
  case False
  then show ?thesis
    by (auto simp: insertIntoChain_def publishBlockConfirmation_def published_def)
next
  case True
  let ?rec = "PrepareMultiShardData D v h TotalExecutionShardCount ShardsPerVanBlock"
  obtain e s1 where r: "resolveReorg D s v = (e, s1)" by (cases "resolveReorg D s v")
  have fr: "verifiedSlotInfoFeed s1 = verifiedSlotInfoFeed s"
    using r by (auto simp: resolveReorg_def split: option.splits prod.splits if_splits)
  show ?thesis
  proof (cases e)
    case (Some err)
    with True r fr show ?thesis
      by (simp add: insertIntoChain_def published_def)
  next
    case None
    obtain e2 s2 where w: "writeShardInfoInDB D s1 ?rec = (e2, s2)"
      by (cases "writeShardInfoInDB D s1 ?rec")
    have fw: "verifiedSlotInfoFeed s2 = verifiedSlotInfoFeed s1"
      using w by (auto simp: writeShardInfoInDB_def Let_def split: option.splits prod.splits)
    have ff: "verifiedSlotInfoFeed (writeFinalizeInfo D s2 (FinalizedSlot v) (FinalizedEpoch v))
                = verifiedSlotInfoFeed s2"
      by (simp add: writeFinalizeInfo_def Let_def)
    show ?thesis
    proof (cases e2)
      case (Some err2)
      with True r None w fr fw show ?thesis
        by (simp add: insertIntoChain_def commitVerified_def published_def)
    next
      case N2: None
      with True r None w fr fw ff show ?thesis
        by (simp add: insertIntoChain_def commitVerified_def published_def
              publishBlockConfirmation_def Let_def)
    qed
  qed
qed

text \<open>
  The pair of slot 1 at genesis is verified; the header of slot 2 against it is invalid;
  with a failing head-pointer write nothing is published.
\<close>

theorem insertIntoChain_status_witness:
  "compareShardingInfo Mem (Header h1) (ShardInfo v1) \<and> verifyShardInfo None (Header h1) v1 0
   \<and> fst (resolveReorg Mem genesis v1) = None
   \<and> fst (writeShardInfoInDB Mem (snd (resolveReorg Mem genesis v1))
            (PrepareMultiShardData Mem v1 (Header h1)
               TotalExecutionShardCount ShardsPerVanBlock)) = None
   \<and> fst (insertIntoChain Mem genesis v1 (Header h1) None 0) = None
   \<and> published genesis (snd (insertIntoChain Mem genesis v1 (Header h1) None 0))
       = [\<lparr>PandoraHeaderHash = 0x11, VanguardBlockHash = 0xAA, Status = Verified\<rparr>]
   \<and> \<not> compareShardingInfo Mem (Header h2) (ShardInfo v1)
   \<and> published genesis (snd (insertIntoChain Mem genesis v1 (Header h2) None 0))
       = [\<lparr>PandoraHeaderHash = 0x22, VanguardBlockHash = 0xAA, Status = Invalid\<rparr>]
   \<and> db (snd (insertIntoChain Mem genesis v1 (Header h2) None 0)) = db genesis
   \<and> fst (writeShardInfoInDB MemWriteFault (snd (resolveReorg MemWriteFault genesis v1))
            (PrepareMultiShardData MemWriteFault v1 (Header h1)
               TotalExecutionShardCount ShardsPerVanBlock)) = Some (ErrNew ''disk full'')
   \<and> published genesis (snd (insertIntoChain MemWriteFault genesis v1 (Header h1) None 0)) = []"
(is ?run)
proof -
  have run: ?run
    by (simp add: handler_defs mem_defs input_defs)
  show ?thesis
    using insertIntoChain_status [of genesis Mem v1 "Header h1" None 0]
          insertIntoChain_status [of genesis Mem v1 "Header h2" None 0]
          insertIntoChain_status [of genesis MemWriteFault v1 "Header h1" None 0]
          run
    apply -
    apply assumption
    done
qed

section \<open>A failed store write\<close>

text \<open>
  Claim C2. When both checks pass and the append fails (\<open>writeShardInfoInDB\<close> returns an
  error, which it does exactly when the save of the record, of the head pointer or of the
  slot index returns one), \<open>insertIntoChain\<close> returns the wrapped error, publishes nothing
  and leaves both caches as they were; the state it returns is the one the failed append
  left. Hence every \<open>Verified\<close> confirmation that \<open>insertIntoChain\<close> publishes is the one
  of its pair \<open>(h.hash, v.block_root)\<close>, and then the three saves of the record built from
  that pair, each on the store the one before left, returned no error, and the call
  returns the state these saves left, followed by the finality write, the two evictions
  and the publish. The state \<open>writeShardInfoInDB\<close> returns is the store the last attempted
  save left.
\<close>

theorem store_write_failure:
  "(compareShardingInfo D h (ShardInfo v) \<and> verifyShardInfo latest h v stepId
      \<and> resolveReorg D s v = (None, s1)
      \<and> fst (writeShardInfoInDB D s1
                (PrepareMultiShardData D v h TotalExecutionShardCount ShardsPerVanBlock)) = Some e
    \<longrightarrow> insertIntoChain D s v h latest stepId
            = (Some (ErrWrap e ''failed to write shard info in db''),
               snd (writeShardInfoInDB D s1
                      (PrepareMultiShardData D v h TotalExecutionShardCount ShardsPerVanBlock)))
        \<and> fst (insertIntoChain D s v h latest stepId)
            = Some (ErrWrap e ''failed to write shard info in db'')
        \<and> published s (snd (insertIntoChain D s v h latest stepId)) = []
        \<and> panHeaderCache (snd (insertIntoChain D s v h latest stepId)) = panHeaderCache s
        \<and> vanShardCache (snd (insertIntoChain D s v h latest stepId)) = vanShardCache s)
   \<and> (\<forall>c \<in> set (published s (snd (insertIntoChain D s v h latest stepId))).
         Status c = Verified \<longrightarrow>
           c = \<lparr>PandoraHeaderHash = Hash h, VanguardBlockHash = BlockRoot v, Status = Verified\<rparr>
           \<and> (\<exists>s1. resolveReorg D s v = (None, s1)
                 \<and> fst (writeShardInfoInDB D s1
                      (PrepareMultiShardData D v h TotalExecutionShardCount ShardsPerVanBlock))
                    = None
                 \<and> (let newShardInfo = PrepareMultiShardData D v h TotalExecutionShardCount
                                          ShardsPerVanBlock;
                         n = db_LatestStepID D (db s1) + 1;
                         a = db_SaveVerifiedShardInfo D (db s1) n newShardInfo;
                         b = db_SaveLatestStepID D (snd a) n;
                         c = db_SaveSlotStepIndex D (snd b) (slot newShardInfo) n
                     in fst a = None \<and> fst b = None \<and> fst c = None
                        \<and> insertIntoChain D s v h latest stepId =
                            (None,
                             publishBlockConfirmation
                               ((writeFinalizeInfo D (s1\<lparr>db := snd c\<rparr>)
                                   (FinalizedSlot v) (FinalizedEpoch v))
                                  \<lparr>panHeaderCache :=
                                     pan_ForceDelSlot D (panHeaderCache s1) (Slot v),
                                   vanShardCache :=
                                     van_ForceDelSlot D (vanShardCache s1) (Slot v)\<rparr>)
                               (Hash h) (BlockRoot v) Verified)
                        \<and> db (snd (insertIntoChain D s v h latest stepId)) =
                            db (writeFinalizeInfo D (s1\<lparr>db := snd c\<rparr>)
                                  (FinalizedSlot v) (FinalizedEpoch v)))))
   \<and> ((fst (writeShardInfoInDB D s r) \<noteq> None) =
       (let n = db_LatestStepID D (db s) + 1;
            a = db_SaveVerifiedShardInfo D (db s) n r;
            b = db_SaveLatestStepID D (snd a) n;
            c = db_SaveSlotStepIndex D (snd b) (slot r) n
        in fst a \<noteq> None \<or> fst b \<noteq> None \<or> fst c \<noteq> None))
   \<and> snd (writeShardInfoInDB D s r) =
       (let n = db_LatestStepID D (db s) + 1;
            a = db_SaveVerifiedShardInfo D (db s) n r;
            b = db_SaveLatestStepID D (snd a) n;
            c = db_SaveSlotStepIndex D (snd b) (slot r) n
        in s\<lparr>db := (if fst a \<noteq> None then snd a else if fst b \<noteq> None then snd b
                     else snd c)\<rparr>)"
proof -
  let ?rec = "PrepareMultiShardData D v h TotalExecutionShardCount ShardsPerVanBlock"
  have frame_r: "verifiedSlotInfoFeed t = verifiedSlotInfoFeed s
                 \<and> panHeaderCache t = panHeaderCache s \<and> vanShardCache t = vanShardCache s"
    if "resolveReorg D s v = (x, t)" for x t
    using that by (auto simp: resolveReorg_def split: option.splits prod.splits if_splits)
  have frame_w: "verifiedSlotInfoFeed t' = verifiedSlotInfoFeed t
                 \<and> panHeaderCache t' = panHeaderCache t \<and> vanShardCache t' = vanShardCache t"
    if "writeShardInfoInDB D t ?rec = (x, t')" for x t t'
    using that by (auto simp: writeShardInfoInDB_def Let_def split: option.splits prod.splits)
  have saves: "let n = db_LatestStepID D (db t) + 1;
                   a = db_SaveVerifiedShardInfo D (db t) n ?rec;
                   b = db_SaveLatestStepID D (snd a) n;
                   c = db_SaveSlotStepIndex D (snd b) (slot ?rec) n
               in fst a = None \<and> fst b = None \<and> fst c = None \<and> t' = t\<lparr>db := snd c\<rparr>"
    if "writeShardInfoInDB D t ?rec = (None, t')" for t t'
    using that by (auto simp: writeShardInfoInDB_def Let_def split: option.splits prod.splits)
  have p1: "insertIntoChain D s v h latest stepId
            = (Some (ErrWrap e ''failed to write shard info in db''),
               snd (writeShardInfoInDB D s1 ?rec))
        \<and> fst (insertIntoChain D s v h latest stepId)
            = Some (ErrWrap e ''failed to write shard info in db'')
        \<and> published s (snd (insertIntoChain D s v h latest stepId)) = []
        \<and> panHeaderCache (snd (insertIntoChain D s v h latest stepId)) = panHeaderCache s
        \<and> vanShardCache (snd (insertIntoChain D s v h latest stepId)) = vanShardCache s"
    if a: "compareShardingInfo D h (ShardInfo v) \<and> verifyShardInfo latest h v stepId
      \<and> resolveReorg D s v = (None, s1)
      \<and> fst (writeShardInfoInDB D s1 ?rec) = Some e"
  proof -
    obtain s2 where w: "writeShardInfoInDB D s1 ?rec = (Some e, s2)"
      using a by (metis prod.collapse)
    from a have r: "resolveReorg D s v = (None, s1)" by simp
    have i: "insertIntoChain D s v h latest stepId
               = (Some (ErrWrap e ''failed to write shard info in db''), s2)"
      using a w by (simp add: insertIntoChain_def commitVerified_def)
    show ?thesis using i w frame_r [OF r] frame_w [OF w] by (simp add: published_def)
  qed
  have p2: "c = \<lparr>PandoraHeaderHash = Hash h, VanguardBlockHash = BlockRoot v, Status = Verified\<rparr>
           \<and> (\<exists>s1. resolveReorg D s v = (None, s1)
                 \<and> fst (writeShardInfoInDB D s1 ?rec) = None
                 \<and> (let newShardInfo = ?rec;
                         n = db_LatestStepID D (db s1) + 1;
                         a = db_SaveVerifiedShardInfo D (db s1) n newShardInfo;
                         b = db_SaveLatestStepID D (snd a) n;
                         c = db_SaveSlotStepIndex D (snd b) (slot newShardInfo) n
                     in fst a = None \<and> fst b = None \<and> fst c = None
                        \<and> insertIntoChain D s v h latest stepId =
                            (None,
                             publishBlockConfirmation
                               ((writeFinalizeInfo D (s1\<lparr>db := snd c\<rparr>)
                                   (FinalizedSlot v) (FinalizedEpoch v))
                                  \<lparr>panHeaderCache :=
                                     pan_ForceDelSlot D (panHeaderCache s1) (Slot v),
                                   vanShardCache :=
                                     van_ForceDelSlot D (vanShardCache s1) (Slot v)\<rparr>)
                               (Hash h) (BlockRoot v) Verified)
                        \<and> db (snd (insertIntoChain D s v h latest stepId)) =
                            db (writeFinalizeInfo D (s1\<lparr>db := snd c\<rparr>)
                                  (FinalizedSlot v) (FinalizedEpoch v))))"
    if c: "c \<in> set (published s (snd (insertIntoChain D s v h latest stepId)))"
     and st: "Status c = Verified" for c
  proof (cases "compareShardingInfo D h (ShardInfo v) \<and> verifyShardInfo latest h v stepId")
    case False
    with c st show ?thesis
      by (auto simp: insertIntoChain_def publishBlockConfirmation_def published_def)
  next
    case True
    obtain e s1 where r: "resolveReorg D s v = (e, s1)" by (cases "resolveReorg D s v")
    note fr = frame_r [OF r]
    show ?thesis
    proof (cases e)
      case (Some err)
      with True r fr c show ?thesis
        by (simp add: insertIntoChain_def published_def)
    next
      case None
      obtain e2 s2 where w: "writeShardInfoInDB D s1 ?rec = (e2, s2)"
        by (cases "writeShardInfoInDB D s1 ?rec")
      note fw = frame_w [OF w]
      show ?thesis
      proof (cases e2)
        case (Some err2)
        with True r None w fr fw c show ?thesis
          by (simp add: insertIntoChain_def commitVerified_def published_def)
      next
        case N2: None
        have w': "writeShardInfoInDB D s1 ?rec = (None, s2)" using w N2 by simp
        have ff: "verifiedSlotInfoFeed
                    (writeFinalizeInfo D s2 (FinalizedSlot v) (FinalizedEpoch v))
                  = verifiedSlotInfoFeed s2
                  \<and> panHeaderCache (writeFinalizeInfo D s2 (FinalizedSlot v) (FinalizedEpoch v))
                  = panHeaderCache s2
                  \<and> vanShardCache (writeFinalizeInfo D s2 (FinalizedSlot v) (FinalizedEpoch v))
                  = vanShardCache s2"
          by (simp add: writeFinalizeInfo_def Let_def)
        have i: "insertIntoChain D s v h latest stepId =
                   (None,
                    publishBlockConfirmation
                      ((writeFinalizeInfo D s2 (FinalizedSlot v) (FinalizedEpoch v))
                         \<lparr>panHeaderCache := pan_ForceDelSlot D (panHeaderCache s1) (Slot v),
                          vanShardCache := van_ForceDelSlot D (vanShardCache s1) (Slot v)\<rparr>)
                      (Hash h) (BlockRoot v) Verified)"
          using True r None w' fw ff
          by (simp add: insertIntoChain_def commitVerified_def Let_def)
        have cv: "c = \<lparr>PandoraHeaderHash = Hash h, VanguardBlockHash = BlockRoot v,
                         Status = Verified\<rparr>"
          using c i fr fw ff by (simp add: published_def publishBlockConfirmation_def)
        show ?thesis
          using cv r None w' saves [OF w'] i
          by (auto simp: Let_def publishBlockConfirmation_def)
      qed
    qed
  qed
  have p3: "(fst (writeShardInfoInDB D s r) \<noteq> None) =
       (let n = db_LatestStepID D (db s) + 1;
            a = db_SaveVerifiedShardInfo D (db s) n r;
            b = db_SaveLatestStepID D (snd a) n;
            c = db_SaveSlotStepIndex D (snd b) (slot r) n
        in fst a \<noteq> None \<or> fst b \<noteq> None \<or> fst c \<noteq> None)"
    by (auto simp: writeShardInfoInDB_def Let_def split: prod.splits option.splits)
  have p4: "snd (writeShardInfoInDB D s r) =
       (let n = db_LatestStepID D (db s) + 1;
            a = db_SaveVerifiedShardInfo D (db s) n r;
            b = db_SaveLatestStepID D (snd a) n;
            c = db_SaveSlotStepIndex D (snd b) (slot r) n
        in s\<lparr>db := (if fst a \<noteq> None then snd a else if fst b \<noteq> None then snd b
                     else snd c)\<rparr>)"
    by (auto simp: writeShardInfoInDB_def Let_def split: prod.splits option.splits)
  from p1 p2 p3 p4 show ?thesis by blast
qed

text \<open>
  The pair of slot 1 with a store whose head-pointer write fails, and with the healthy
  store.
\<close>

theorem store_write_failure_witness:
  "compareShardingInfo MemWriteFault (Header h1) (ShardInfo v1)
   \<and> verifyShardInfo None (Header h1) v1 0
   \<and> resolveReorg MemWriteFault pending1 v1 = (None, pending1)
   \<and> fst (writeShardInfoInDB MemWriteFault pending1
            (PrepareMultiShardData MemWriteFault v1 (Header h1)
               TotalExecutionShardCount ShardsPerVanBlock)) = Some (ErrNew ''disk full'')
   \<and> insertIntoChain MemWriteFault pending1 v1 (Header h1) None 0
       = (Some (ErrWrap (ErrNew ''disk full'') ''failed to write shard info in db''),
          pending1\<lparr>db := \<lparr>mem_verified = [(1, rec1)], mem_slotIndex = [],
                          mem_latestStepId = 0, mem_finalizedSlot = 0,
                          mem_finalizedEpoch = 0\<rparr>\<rparr>)
   \<and> published pending1 (snd (insertIntoChain MemWriteFault pending1 v1 (Header h1) None 0)) = []
   \<and> panHeaderCache (snd (insertIntoChain MemWriteFault pending1 v1 (Header h1) None 0))
       = panHeaderCache pending1
   \<and> vanShardCache (snd (insertIntoChain MemWriteFault pending1 v1 (Header h1) None 0))
       = vanShardCache pending1
   \<and> published pending1 (snd (insertIntoChain Mem pending1 v1 (Header h1) None 0))
       = [\<lparr>PandoraHeaderHash = 0x11, VanguardBlockHash = 0xAA, Status = Verified\<rparr>]
   \<and> resolveReorg Mem pending1 v1 = (None, pending1)
   \<and> fst (writeShardInfoInDB Mem pending1
            (PrepareMultiShardData Mem v1 (Header h1)
               TotalExecutionShardCount ShardsPerVanBlock)) = None
   \<and> db (snd (insertIntoChain Mem pending1 v1 (Header h1) None 0))
       = \<lparr>mem_verified = [(1, rec1)], mem_slotIndex = [(1, 1)], mem_latestStepId = 1,
          mem_finalizedSlot = 0, mem_finalizedEpoch = 0\<rparr>
   \<and> panHeaderCache (snd (insertIntoChain Mem pending1 v1 (Header h1) None 0)) = []
   \<and> vanShardCache (snd (insertIntoChain Mem pending1 v1 (Header h1) None 0)) = []"
(is ?run)
proof -
  have run: ?run
    by (simp add: handler_defs mem_defs input_defs)
  show ?thesis
    using store_write_failure [where D = MemWriteFault and h = "Header h1" and v = v1
            and latest = None and stepId = 0 and s = pending1 and ?s1.0 = pending1
            and e = "ErrNew ''disk full''" and r = rec1]
          store_write_failure [where D = Mem and h = "Header h1" and v = v1
            and latest = None and stepId = 0 and s = pending1 and ?s1.0 = pending1
            and e = "ErrNew ''disk full''" and r = rec1]
          run
    apply -
    apply assumption
    done
qed

section \<open>Replay of a committed pair\<close>

text \<open>
  Claim C3 (replay idempotence). The claim expects two further \<open>Verified\<close> confirmations
  when a committed pair is fed again, one from each entry point. In the source the pandora
  entry point publishes one; the vanguard entry point does not return early on an equal
  consensus root (its test is \<^verbatim>\<open>!=\<close>) and publishes nothing. So once the pair \<open>(h, v)\<close> is
  committed and the pandora cache holds nothing for the slot, feeding \<open>h\<close> and then \<open>v\<close>
  publishes exactly one \<open>Verified\<close> confirmation and leaves the store as it was.
\<close>

theorem replay_publishes_once:
  assumes "HSlot hi = Slot v"
      and "getShardingInfo D s (Slot v) = Some r" and "NotNil (Some r)"
      and "GetPanShardRoot r = Hash (Header hi)" and "GetVanSlotRoot r = BlockRoot v"
      and "pan_Get D (panHeaderCache s) (Slot v) = None"
  shows "published s (snd (processVanguardShardInfo D
                             (snd (processPandoraHeader D s (Some hi))) nowTime (Some v)))
           = [\<lparr>PandoraHeaderHash = Hash (Header hi), VanguardBlockHash = BlockRoot v,
               Status = Verified\<rparr>]
       \<and> db (snd (processVanguardShardInfo D
                    (snd (processPandoraHeader D s (Some hi))) nowTime (Some v))) = db s
       \<and> fst (processPandoraHeader D s (Some hi)) = None"
proof -
  let ?s1 = "publishBlockConfirmation s (Hash (Header hi)) (BlockRoot v) Verified"
  have p: "processPandoraHeader D s (Some hi) = (None, ?s1)"
    using assms by (simp add: processPandoraHeader_def panAlreadyVerified_def)
  have g: "getShardingInfo D ?s1 (Slot v) = Some r"
    using assms(2) by (simp add: getShardingInfo_publish)
  have c: "pan_Get D (panHeaderCache ?s1) (Slot v) = None"
    using assms(6) by (simp add: publish_fields)
  have v: "processVanguardShardInfo D ?s1 nowTime (Some v) = vanguardNormalPath D ?s1 nowTime v"
    using g assms(3,5) by (simp add: processVanguardShardInfo_def vanEarlyReturn_def)
  show ?thesis
    using vanguardNormalPath_no_header [OF c, where ?s0.0 = s and nowTime = nowTime]
    by (simp add: p v published_publish publish_fields)
qed

text \<open>The pair of slot 2 fed again after scenarios 1 and 2.\<close>

theorem replay_publishes_once_witness:
  "HSlot h2 = Slot v2
   \<and> getShardingInfo Mem committed2 (Slot v2) = Some rec2 \<and> NotNil (Some rec2)
   \<and> GetPanShardRoot rec2 = Hash (Header h2) \<and> GetVanSlotRoot rec2 = BlockRoot v2
   \<and> pan_Get Mem (panHeaderCache committed2) (Slot v2) = None
   \<and> van_Get Mem (vanShardCache committed2) (Slot v2) = None
   \<and> published committed2
        (snd (processVanguardShardInfo Mem (snd (processPandoraHeader Mem committed2 (Some h2)))
                12 (Some v2)))
       = [\<lparr>PandoraHeaderHash = 0x22, VanguardBlockHash = 0xBB, Status = Verified\<rparr>]
   \<and> db (snd (processVanguardShardInfo Mem (snd (processPandoraHeader Mem committed2 (Some h2)))
                12 (Some v2))) = db committed2"
  using replay_publishes_once [of h2 v2 Mem committed2 rec2 12]
  by (simp add: handler_defs mem_defs input_defs)

section \<open>The early return of the vanguard entry point\<close>

text \<open>
  Claim C4. The claim expects the vanguard entry point to return early, with a \<open>Verified\<close>
  re-publish, when the stored record's consensus root equals \<open>v.block_root\<close>, and to
  continue when it differs. The source does the opposite and never publishes there: with a
  stored record for the slot, an equal root continues along the normal path, and a different
  root returns nil at once with the state untouched.
\<close>

theorem vanguard_short_circuit_inverted:
  assumes "getShardingInfo D s (Slot v) = Some r" and "NotNil (Some r)"
  shows "(GetVanSlotRoot r = BlockRoot v \<longrightarrow>
            processVanguardShardInfo D s nowTime (Some v) = vanguardNormalPath D s nowTime v)
       \<and> (GetVanSlotRoot r \<noteq> BlockRoot v \<longrightarrow>
            processVanguardShardInfo D s nowTime (Some v) = (None, s))
       \<and> published s (snd (processVanguardShardInfo D s nowTime (Some v)))
           = (if GetVanSlotRoot r = BlockRoot v
              then published s (snd (vanguardNormalPath D s nowTime v)) else [])"
  using assms
  by (auto simp: processVanguardShardInfo_def vanEarlyReturn_def published_same)

text \<open>
  The committed shard of slot 2 fed again goes down the normal path and into the vanguard
  cache; a slot-2 shard with another root is dropped at once.
\<close>

theorem vanguard_short_circuit_inverted_witness:
  "getShardingInfo Mem committed2 (Slot v2) = Some rec2 \<and> NotNil (Some rec2)
   \<and> GetVanSlotRoot rec2 = BlockRoot v2
   \<and> processVanguardShardInfo Mem committed2 12 (Some v2) = vanguardNormalPath Mem committed2 12 v2
   \<and> published committed2 (snd (processVanguardShardInfo Mem committed2 12 (Some v2))) = []
   \<and> map fst (vanShardCache (snd (processVanguardShardInfo Mem committed2 12 (Some v2)))) = [2]
   \<and> getShardingInfo Mem committed2 (Slot v2x) = Some rec2
   \<and> GetVanSlotRoot rec2 \<noteq> BlockRoot v2x
   \<and> processVanguardShardInfo Mem committed2 12 (Some v2x) = (None, committed2)"
  using vanguard_short_circuit_inverted [of Mem committed2 v2 rec2 12]
        vanguard_short_circuit_inverted [of Mem committed2 v2x rec2 12]
  by (simp add: handler_defs mem_defs input_defs)

section \<open>Installing the reorg status\<close>

text \<open>
  Claim C5, as amended. When the reorg check finds a common ancestor (a parent record
  that is not nil), \<open>processVanguardShardInfo\<close> continues with the ancestor and its step id
  as the latest record for the rest of the call. It installs the reorg status (the shard's
  slot and block root, the ancestor's step id and record, the execution hash from
  \<open>v.shard_info.hash\<close>, not resolved) only when there is no reorg status or the present one
  names the same block root; otherwise the present reorg status stays.
\<close>

theorem reorg_status_installed:
  assumes "\<not> vanEarlyReturn D s v"
      and "loadLatest D s = Inr (headShardInfo, headStepId)"
      and "checkReorg D (db s) v headShardInfo headStepId = Inr (Some parent, parentStepId)"
      and "NotNil (Some parent)"
  shows "processVanguardShardInfo D s nowTime (Some v) =
           cacheVanguardShard D
             (if curReorgStatus s = None
                 \<or> (\<exists>rs. curReorgStatus s = Some rs \<and> RBlockRoot rs = BlockRoot v)
              then s\<lparr>curReorgStatus := Some
                       \<lparr>RSlot = Slot v, RBlockRoot = BlockRoot v, ParentStepId = parentStepId,
                        ParentShardInfo = Some parent,
                        PandoraHash = BytesToHash (ShardHash (ShardInfo v)),
                        HasResolved = False\<rparr>\<rparr>
              else s)
             nowTime v (Some parent) parentStepId"
  using assms
  by (auto simp: processVanguardShardInfo_def vanguardNormalPath_def installReorgStatus_def
        split: option.splits)

text \<open>The second competing block of slot 3 after scenarios 1 and 2.\<close>

theorem reorg_status_installed_witness:
  "\<not> vanEarlyReturn Mem committed2 v3b
   \<and> loadLatest Mem committed2 = Inr (Some rec2, 2)
   \<and> checkReorg Mem (db committed2) v3b (Some rec2) 2 = Inr (Some rec1, 1)
   \<and> NotNil (Some rec1)
   \<and> processVanguardShardInfo Mem committed2 18 (Some v3b) =
       cacheVanguardShard Mem
         (committed2\<lparr>curReorgStatus := Some
            \<lparr>RSlot = 3, RBlockRoot = 0xDD, ParentStepId = 1, ParentShardInfo = Some rec1,
             PandoraHash = 0x33, HasResolved = False\<rparr>\<rparr>)
         18 v3b (Some rec1) 1
   \<and> curReorgStatus (snd (processVanguardShardInfo Mem committed2 18 (Some v3b))) =
       Some \<lparr>RSlot = 3, RBlockRoot = 0xDD, ParentStepId = 1, ParentShardInfo = Some rec1,
             PandoraHash = 0x33, HasResolved = False\<rparr>"
  using reorg_status_installed [of Mem committed2 v3b "Some rec2" 2 rec1 1 18]
  by (simp add: handler_defs mem_defs input_defs)

text \<open>
  Claim C5 as stated fails: after the first competing block of slot 3 has installed its
  reorg status, the second one (another block root) has a common ancestor too, and the
  reorg status is still the first block's.
\<close>

theorem reorg_status_not_installed_counterexample:
  "\<not> vanEarlyReturn Mem forkedCC v3b
   \<and> loadLatest Mem forkedCC = Inr (Some rec2, 2)
   \<and> checkReorg Mem (db forkedCC) v3b (Some rec2) 2 = Inr (Some rec1, 1)
   \<and> NotNil (Some rec1)
   \<and> curReorgStatus (snd (processVanguardShardInfo Mem forkedCC 18 (Some v3b)))
       = Some \<lparr>RSlot = 3, RBlockRoot = 0xCC, ParentStepId = 1, ParentShardInfo = Some rec1,
               PandoraHash = 0x44, HasResolved = False\<rparr>
   \<and> curReorgStatus (snd (processVanguardShardInfo Mem forkedCC 18 (Some v3b)))
       \<noteq> Some \<lparr>RSlot = Slot v3b, RBlockRoot = BlockRoot v3b, ParentStepId = 1,
               ParentShardInfo = Some rec1,
               PandoraHash = BytesToHash (ShardHash (ShardInfo v3b)), HasResolved = False\<rparr>"
  by (simp add: forkedCC_def handler_defs mem_defs input_defs)

section \<open>A put rejected by a cache\<close>

text \<open>
  Claim C6. When the pandora cache's put rejects a header, \<open>processPandoraHeader\<close>
  publishes \<open>Invalid\<close> with the pair \<open>(h.hash, zero hash)\<close> and returns nil. When the
  vanguard cache's put rejects a shard, \<open>processVanguardShardInfo\<close> returns nil, publishes
  nothing and leaves the store as it was.
\<close>

theorem unknown_parent_not_propagated:
  "(panAlreadyVerified D s hi = None
      \<and> loadLatest D s = Inr latest
      \<and> reorgLatest s (Header hi) latest = (latestShardInfo, latestStepId)
      \<and> pan_Put D (panHeaderCache s) (HSlot hi)
            \<lparr>CurrentVerifiedHeader = Header hi, PanLastVerifiedShardInfo = latestShardInfo\<rparr>
          = (Some e, pc)
    \<longrightarrow> processPandoraHeader D s (Some hi)
          = (None, publishBlockConfirmation (s\<lparr>panHeaderCache := pc\<rparr>) (Hash (Header hi)) 0 Invalid)
        \<and> published s (snd (processPandoraHeader D s (Some hi)))
          = [\<lparr>PandoraHeaderHash = Hash (Header hi), VanguardBlockHash = 0, Status = Invalid\<rparr>])
   \<and> (\<not> vanEarlyReturn D s v
      \<and> loadLatest D s = Inr (headShardInfo, headStepId)
      \<and> checkReorg D (db s) v headShardInfo headStepId = Inr (parentShardInfo, parentStepId)
      \<and> secondsPerSlot s \<noteq> 0
      \<and> van_Put D (vanShardCache s) (Slot v)
            \<lparr>DisableDelete = (Slot v < (nowTime - genesisTime s) div secondsPerSlot s),
             CurrentShardInfo = v,
             VanLastVerifiedShardInfo =
               (if parentShardInfo \<noteq> None \<and> NotNil parentShardInfo
                then parentShardInfo else headShardInfo)\<rparr>
          = (Some e', vc)
    \<longrightarrow> fst (processVanguardShardInfo D s nowTime (Some v)) = None
        \<and> published s (snd (processVanguardShardInfo D s nowTime (Some v))) = []
        \<and> db (snd (processVanguardShardInfo D s nowTime (Some v))) = db s)"
proof -
  have pan: "processPandoraHeader D s (Some hi)
          = (None, publishBlockConfirmation (s\<lparr>panHeaderCache := pc\<rparr>) (Hash (Header hi)) 0 Invalid)
        \<and> published s (snd (processPandoraHeader D s (Some hi)))
          = [\<lparr>PandoraHeaderHash = Hash (Header hi), VanguardBlockHash = 0, Status = Invalid\<rparr>]"
    if "panAlreadyVerified D s hi = None
      \<and> loadLatest D s = Inr latest
      \<and> reorgLatest s (Header hi) latest = (latestShardInfo, latestStepId)
      \<and> pan_Put D (panHeaderCache s) (HSlot hi)
            \<lparr>CurrentVerifiedHeader = Header hi, PanLastVerifiedShardInfo = latestShardInfo\<rparr>
          = (Some e, pc)"
    using that
    by (simp add: processPandoraHeader_def pandoraNormalPath_def cachePandoraHeader_def
          published_publish)
  have van: "fst (processVanguardShardInfo D s nowTime (Some v)) = None
        \<and> published s (snd (processVanguardShardInfo D s nowTime (Some v))) = []
        \<and> db (snd (processVanguardShardInfo D s nowTime (Some v))) = db s"
    if "\<not> vanEarlyReturn D s v
      \<and> loadLatest D s = Inr (headShardInfo, headStepId)
      \<and> checkReorg D (db s) v headShardInfo headStepId = Inr (parentShardInfo, parentStepId)
      \<and> secondsPerSlot s \<noteq> 0
      \<and> van_Put D (vanShardCache s) (Slot v)
            \<lparr>DisableDelete = (Slot v < (nowTime - genesisTime s) div secondsPerSlot s),
             CurrentShardInfo = v,
             VanLastVerifiedShardInfo =
               (if parentShardInfo \<noteq> None \<and> NotNil parentShardInfo
                then parentShardInfo else headShardInfo)\<rparr>
          = (Some e', vc)"
    using that
    by (auto simp: processVanguardShardInfo_def vanguardNormalPath_def cacheVanguardShard_def
          published_same installReorgStatus_frame Let_def)
  from pan van show ?thesis by blast
qed

text \<open>The orphan header and the orphan shard of scenario 6 after scenarios 1 and 2.\<close>

theorem unknown_parent_not_propagated_witness:
  "panAlreadyVerified Mem committed2 hOrphan = None
   \<and> loadLatest Mem committed2 = Inr (Some rec2, 2)
   \<and> reorgLatest committed2 (Header hOrphan) (Some rec2, 2) = (Some rec2, 2)
   \<and> fst (pan_Put Mem (panHeaderCache committed2) (HSlot hOrphan)
            \<lparr>CurrentVerifiedHeader = Header hOrphan, PanLastVerifiedShardInfo = Some rec2\<rparr>)
       = Some (ErrNew ''unknown parent'')
   \<and> fst (processPandoraHeader Mem committed2 (Some hOrphan)) = None
   \<and> published committed2 (snd (processPandoraHeader Mem committed2 (Some hOrphan)))
       = [\<lparr>PandoraHeaderHash = 0x99, VanguardBlockHash = 0, Status = Invalid\<rparr>]
   \<and> \<not> vanEarlyReturn Mem committed2 vOrphan
   \<and> checkReorg Mem (db committed2) vOrphan (Some rec2) 2 = Inr (None, 0)
   \<and> fst (van_Put Mem (vanShardCache committed2) (Slot vOrphan)
            \<lparr>DisableDelete = False, CurrentShardInfo = vOrphan,
             VanLastVerifiedShardInfo = Some rec2\<rparr>)
       = Some (ErrNew ''unknown parent'')
   \<and> processVanguardShardInfo Mem committed2 18 (Some vOrphan) = (None, committed2)"
  using unknown_parent_not_propagated [of Mem committed2 hOrphan "(Some rec2, 2)" "Some rec2" 2
          "ErrNew ''unknown parent''" "[]" vOrphan "Some rec2" 2 None 0 18
          "ErrNew ''unknown parent''" "[]"]
  by (simp add: handler_defs mem_defs input_defs)

section \<open>Resolving a reorg inside \<^verbatim>\<open>insertIntoChain\<close>\<close>

text \<open>
  Claim C7. In \<open>insertIntoChain\<close>, with both checks passed, when the reorg status names
  \<open>(v.slot, v.block_root)\<close> and is not resolved: if \<open>processReorg\<close> fails, the call
  returns nil, nothing is appended or published and the reorg status stays unresolved (the
  state is the one \<open>processReorg\<close> left); if it succeeds, the status is marked resolved
  before the append, and stays so.
\<close>

theorem reorg_resolution:
  assumes "compareShardingInfo D h (ShardInfo v)" and "verifyShardInfo latest h v stepId"
      and "curReorgStatus s = Some rs" and "RSlot rs = Slot v" and "RBlockRoot rs = BlockRoot v"
      and "\<not> HasResolved rs"
  shows "(\<forall>e d. processReorg D (db s) (ParentStepId rs) (ParentShardInfo rs) = (Some e, d) \<longrightarrow>
            insertIntoChain D s v h latest stepId = (None, s\<lparr>db := d\<rparr>))
       \<and> (\<forall>d. processReorg D (db s) (ParentStepId rs) (ParentShardInfo rs) = (None, d) \<longrightarrow>
            insertIntoChain D s v h latest stepId
              = commitVerified D (s\<lparr>db := d, curReorgStatus := Some (rs\<lparr>HasResolved := True\<rparr>)\<rparr>) v h
            \<and> curReorgStatus (snd (insertIntoChain D s v h latest stepId))
                = Some (rs\<lparr>HasResolved := True\<rparr>))"
  using assms
  by (auto simp: insertIntoChain_def resolveReorg_def commitVerified_curReorgStatus)

text \<open>
  The second competing block of slot 3 and its header, with a failing rewind and with the
  healthy store.
\<close>

theorem reorg_resolution_witness:
  "compareShardingInfo Mem (Header h3b) (ShardInfo v3b)
   \<and> verifyShardInfo (Some rec1) (Header h3b) v3b 1
   \<and> map_option RSlot (curReorgStatus forkedDD) = Some (Slot v3b)
   \<and> map_option RBlockRoot (curReorgStatus forkedDD) = Some (BlockRoot v3b)
   \<and> map_option HasResolved (curReorgStatus forkedDD) = Some False
   \<and> insertIntoChain MemReorgFault forkedDD v3b (Header h3b) (Some rec1) 1 = (None, forkedDD)
   \<and> map_option HasResolved
        (curReorgStatus (snd (insertIntoChain Mem forkedDD v3b (Header h3b) (Some rec1) 1)))
       = Some True
   \<and> map fst (mem_verified (db (snd (insertIntoChain Mem forkedDD v3b (Header h3b)
                                          (Some rec1) 1)))) = [2, 1]
   \<and> published forkedDD (snd (insertIntoChain Mem forkedDD v3b (Header h3b) (Some rec1) 1))
       = [\<lparr>PandoraHeaderHash = 0x33, VanguardBlockHash = 0xDD, Status = Verified\<rparr>]"
  using reorg_resolution [of MemReorgFault "Header h3b" v3b "Some rec1" 1 forkedDD
          "the (curReorgStatus forkedDD)"]
        reorg_resolution [of Mem "Header h3b" v3b "Some rec1" 1 forkedDD
          "the (curReorgStatus forkedDD)"]
  by (simp add: forkedDD_def handler_defs mem_defs input_defs)

section \<open>Finality monotonicity\<close>

text \<open>
  Claim C8. On a store whose finality scalars are keys of a durable map, after any
  sequence of \<open>writeFinalizeInfo\<close> calls the stored finalized slot and epoch never
  decrease; an input that is not strictly greater than the stored value leaves that value
  unchanged, and a call where neither input is greater changes nothing.
\<close>

theorem finality_monotone:
  assumes "finalityKeys D"
  shows "db_FinalizedSlot D (db (writeFinalizeInfos D s before))
           \<le> db_FinalizedSlot D (db (writeFinalizeInfos D s (before @ after)))
       \<and> db_FinalizedEpoch D (db (writeFinalizeInfos D s before))
           \<le> db_FinalizedEpoch D (db (writeFinalizeInfos D s (before @ after)))
       \<and> (finalizeSlot \<le> db_FinalizedSlot D (db s) \<longrightarrow>
            db_FinalizedSlot D (db (writeFinalizeInfo D s finalizeSlot finalizeEpoch))
              = db_FinalizedSlot D (db s))
       \<and> (finalizeEpoch \<le> db_FinalizedEpoch D (db s) \<longrightarrow>
            db_FinalizedEpoch D (db (writeFinalizeInfo D s finalizeSlot finalizeEpoch))
              = db_FinalizedEpoch D (db s))
       \<and> (finalizeSlot \<le> db_FinalizedSlot D (db s)
            \<and> finalizeEpoch \<le> db_FinalizedEpoch D (db s) \<longrightarrow>
            writeFinalizeInfo D s finalizeSlot finalizeEpoch = s)"
proof -
  have app: "writeFinalizeInfos D s (before @ after)
               = writeFinalizeInfos D (writeFinalizeInfos D s before) after"
    by (simp add: writeFinalizeInfos_def)
  have a1: "db_FinalizedSlot D (db (writeFinalizeInfos D s before))
           \<le> db_FinalizedSlot D (db (writeFinalizeInfos D s (before @ after)))"
    unfolding app using writeFinalizeInfos_mono [OF assms] by blast
  have a2: "db_FinalizedEpoch D (db (writeFinalizeInfos D s before))
           \<le> db_FinalizedEpoch D (db (writeFinalizeInfos D s (before @ after)))"
    unfolding app using writeFinalizeInfos_mono [OF assms] by blast
  have a3: "finalizeSlot \<le> db_FinalizedSlot D (db s) \<longrightarrow>
           db_FinalizedSlot D (db (writeFinalizeInfo D s finalizeSlot finalizeEpoch))
             = db_FinalizedSlot D (db s)"
    by (auto simp: writeFinalizeInfo_slot [OF assms])
  have a4: "finalizeEpoch \<le> db_FinalizedEpoch D (db s) \<longrightarrow>
           db_FinalizedEpoch D (db (writeFinalizeInfo D s finalizeSlot finalizeEpoch))
             = db_FinalizedEpoch D (db s)"
    by (auto simp: writeFinalizeInfo_epoch [OF assms])
  have a5: "finalizeSlot \<le> db_FinalizedSlot D (db s)
            \<and> finalizeEpoch \<le> db_FinalizedEpoch D (db s) \<longrightarrow>
           writeFinalizeInfo D s finalizeSlot finalizeEpoch = s"
    by (auto simp: writeFinalizeInfo_def Let_def)
  from a1 a2 a3 a4 a5 show ?thesis by blast
qed

text \<open>Slots 32, 16, 64 and epochs 1, 2, 2 from genesis.\<close>

theorem finality_monotone_witness:
  "finalityKeys Mem
   \<and> db_FinalizedSlot Mem (db (writeFinalizeInfos Mem genesis [(32, 1)])) = 32
   \<and> db_FinalizedSlot Mem (db (writeFinalizeInfos Mem genesis ([(32, 1)] @ [(16, 2), (64, 2)]))) = 64
   \<and> db_FinalizedEpoch Mem (db (writeFinalizeInfos Mem genesis [(32, 1)])) = 1
   \<and> db_FinalizedEpoch Mem (db (writeFinalizeInfos Mem genesis ([(32, 1)] @ [(16, 2), (64, 2)]))) = 2
   \<and> writeFinalizeInfo Mem genesis 0 0 = genesis
   \<and> db_FinalizedSlot Mem (db (writeFinalizeInfo Mem (writeFinalizeInfos Mem genesis [(32, 1)]) 16 2))
       = 32"
proof -
  have k: "finalityKeys Mem"
    by (simp add: finalityKeys_def Mem_def mem_SaveFinalizedSlot_def mem_SaveFinalizedEpoch_def)
  show ?thesis
    using k finality_monotone [OF k, of genesis "[(32, 1)]" "[(16, 2), (64, 2)]" 0 0]
          finality_monotone [OF k, of "writeFinalizeInfos Mem genesis [(32, 1)]" "[]" "[]" 16 2]
    by (simp add: writeFinalizeInfos_def handler_defs mem_defs input_defs)
qed

section \<open>Read errors of the short-circuit lookup\<close>

text \<open>
  Claim C9. When the slot-to-step-id lookup or the read of the verified record returns an
  error, \<open>getShardingInfo\<close> returns nil, and both entry points continue along the normal
  path for that slot.
\<close>

theorem lookup_errors_swallowed:
  assumes "(\<exists>e. db_GetStepIdBySlot D (db s) slt = Inl e)
         \<or> (\<exists>stepId e. db_GetStepIdBySlot D (db s) slt = Inr stepId
                        \<and> db_VerifiedShardInfo D (db s) stepId = Inl e)"
  shows "getShardingInfo D s slt = None
       \<and> (HSlot hi = slt \<longrightarrow>
            processPandoraHeader D s (Some hi) = pandoraNormalPath D s hi)
       \<and> (Slot v = slt \<longrightarrow>
            processVanguardShardInfo D s nowTime (Some v) = vanguardNormalPath D s nowTime v)"
proof -
  have g: "getShardingInfo D s slt = None"
    using assms by (auto simp: getShardingInfo_def)
  have p: "HSlot hi = slt \<longrightarrow> processPandoraHeader D s (Some hi) = pandoraNormalPath D s hi"
    using g by (auto simp: processPandoraHeader_def panAlreadyVerified_def)
  have q: "Slot v = slt \<longrightarrow>
           processVanguardShardInfo D s nowTime (Some v) = vanguardNormalPath D s nowTime v"
    using g by (auto simp: processVanguardShardInfo_def vanEarlyReturn_def)
  from g p q show ?thesis by blast
qed

text \<open>A slot that is not indexed at genesis, and a store whose record read fails.\<close>

theorem lookup_errors_swallowed_witness:
  "db_GetStepIdBySlot Mem (db genesis) 1 = Inl (ErrNew ''slot not indexed'')
   \<and> getShardingInfo Mem genesis 1 = None
   \<and> db_GetStepIdBySlot MemReadFault (db committed2) 2 = Inr 2
   \<and> db_VerifiedShardInfo MemReadFault (db committed2) 2 = Inl (ErrNew ''decode failed'')
   \<and> getShardingInfo MemReadFault committed2 2 = None
   \<and> processPandoraHeader MemReadFault committed2 (Some h2)
       = pandoraNormalPath MemReadFault committed2 h2
   \<and> processVanguardShardInfo MemReadFault committed2 12 (Some v2)
       = vanguardNormalPath MemReadFault committed2 12 v2
   \<and> processPandoraHeader Mem genesis (Some h1) = pandoraNormalPath Mem genesis h1"
  using lookup_errors_swallowed [of Mem genesis 1 h1 v1 6]
        lookup_errors_swallowed [of MemReadFault committed2 2 h2 v2 12]
  by (simp add: getShardingInfo_def mem_defs input_defs)

section \<open>Nil inputs\<close>

text \<open>
  Claim C10. On a nil input each entry point returns nil and the state it was given,
  whatever the store, the caches and the reorg controller are.
\<close>

theorem nil_input_noop:
  "processPandoraHeader D s None = (None, s)
   \<and> processVanguardShardInfo D s nowTime None = (None, s)"
  by (simp add: processPandoraHeader_def processVanguardShardInfo_def)

text \<open>Both entry points on nil after scenarios 1 and 2.\<close>

theorem nil_input_noop_witness:
  "processPandoraHeader Mem committed2 None = (None, committed2)
   \<and> processVanguardShardInfo Mem committed2 12 None = (None, committed2)"
  using nil_input_noop [of Mem committed2 12] by simp

end
